theory Spec2Isabelle
  imports Complex_Main
begin

section \<open>Conventions of the embedding\<close>

text \<open>
  The repository is a small Python library in three layers: \<^verbatim>\<open>pauli_group.py\<close> (one
  Pauli group element, a phase times a sigma matrix) and \<^verbatim>\<open>pauli_algebra.py\<close> (tensors of
  group elements and formal complex combinations of tensors).

  Python's \<^verbatim>\<open>int\<close>, \<^verbatim>\<open>float\<close> and \<^verbatim>\<open>complex\<close> scalars are modelled by the type
  \<^typ>\<open>complex\<close> with exact arithmetic: numerically equal scalars are one value (as
  Python's \<^verbatim>\<open>==\<close> and \<^verbatim>\<open>hash\<close> treat them) and rounding is not modelled. All products
  of the fourth roots of unity are exact in floating point as well.

  Every exception of the source is a value of the type \<open>error\<close>; a function that can
  raise returns \<open>error + 'a\<close>, with \<open>Inl\<close> for the exception.
\<close>

datatype error =
    InvalidPhaseError        \<comment> \<open>\<^verbatim>\<open>ValueError("Phase must be a fourth root of unity.")\<close>\<close>
  | DimensionMismatchError   \<comment> \<open>\<^verbatim>\<open>ValueError("Tensors must have the same number of factors.")\<close>\<close>
  | UnsupportedOperandError  \<comment> \<open>\<^verbatim>\<open>TypeError\<close> of an operator whose methods all return \<^verbatim>\<open>NotImplemented\<close>\<close>
  | KeyError                 \<comment> \<open>a failed lookup in a dict or in the enum \<^verbatim>\<open>SIGMA\<close>\<close>
  | ZeroDivisionError        \<comment> \<open>\<^verbatim>\<open>1 / x\<close> at \<^verbatim>\<open>x == 0\<close>\<close>
  | ValueError               \<comment> \<open>\<^verbatim>\<open>list.index\<close> of an absent element\<close>
  | IndexError               \<comment> \<open>a list read out of range\<close>

definition sum_bind :: "error + 'a \<Rightarrow> ('a \<Rightarrow> error + 'b) \<Rightarrow> error + 'b" where
  "sum_bind m f = (case m of Inl e \<Rightarrow> Inl e | Inr x \<Rightarrow> f x)"

text \<open>A comprehension whose body can raise: the elements are computed left to right and
  the first exception ends the loop.\<close>

fun traverse :: "('a \<Rightarrow> error + 'b) \<Rightarrow> 'a list \<Rightarrow> error + 'b list" where
  "traverse f [] = Inr []"
| "traverse f (x # xs) =
     sum_bind (f x) (\<lambda>y. sum_bind (traverse f xs) (\<lambda>ys. Inr (y # ys)))"

definition py_truediv :: "complex \<Rightarrow> complex \<Rightarrow> error + complex" where
  "py_truediv a b = (if b = 0 then Inl ZeroDivisionError else Inr (a / b))"

fun list_index :: "'a list \<Rightarrow> 'a \<Rightarrow> error + nat" where
  "list_index [] x = Inl ValueError"
| "list_index (y # ys) x =
     (if y = x then Inr 0 else sum_bind (list_index ys x) (\<lambda>n. Inr (Suc n)))"

definition list_get :: "'a list \<Rightarrow> nat \<Rightarrow> error + 'a" where
  "list_get xs n = (if n < length xs then Inr (xs ! n) else Inl IndexError)"

definition dict_get :: "('k \<times> 'v) list \<Rightarrow> 'k \<Rightarrow> error + 'v" where
  "dict_get d k = (case map_of d k of None \<Rightarrow> Inl KeyError | Some v \<Rightarrow> Inr v)"


section \<open>Group layer (\<^verbatim>\<open>pauli_group.py\<close>)\<close>

text \<open>The enum \<^verbatim>\<open>SIGMA\<close>; its name is taken by the syntax of dependent sums, hence the
  suffix.\<close>

datatype SIGMA_enum = I | X | Y | Z

definition SIGMA_LIST :: "SIGMA_enum list" where
  "SIGMA_LIST = [I, X, Y, Z]"

text \<open>\<^verbatim>\<open>it.combinations(permutation, 2)\<close>: the pairs of positions in order.\<close>

fun combinations2 :: "'a list \<Rightarrow> ('a \<times> 'a) list" where
  "combinations2 [] = []"
| "combinations2 (x # xs) = map (Pair x) xs @ combinations2 xs"

definition sign :: "nat list \<Rightarrow> int" where
  "sign permutation =
     (let inversions = length (filter (\<lambda>(x, y). x > y) (combinations2 permutation))
      in (- 1) ^ inversions)"

text \<open>The body of the loop of \<^verbatim>\<open>create_times_table\<close>. The indices range over
  \<^verbatim>\<open>range(4)\<close>; in the last branch both are in \<open>1..3\<close> and differ, so \<^verbatim>\<open>6 - idx1 - idx2\<close>
  is not negative and the subtraction on \<^typ>\<open>nat\<close> is the source's.\<close>

definition times_table_entry :: "nat \<Rightarrow> nat \<Rightarrow> complex \<times> nat" where
  "times_table_entry idx1 idx2 =
     (if idx1 = 0 \<or> idx2 = 0 then (1, idx1 + idx2)
      else if idx1 = idx2 then (1, 0)
      else (let idx3 = 6 - idx1 - idx2
            in (\<i> * of_int (sign [idx1, idx2, idx3]), idx3)))"

definition create_times_table :: "((nat \<times> nat) \<times> (complex \<times> nat)) list" where
  "create_times_table =
     map (\<lambda>(idx1, idx2). ((idx1, idx2), times_table_entry idx1 idx2))
       (List.product [0..<4] [0..<4])"

definition TIMES_TABLE :: "((nat \<times> nat) \<times> (complex \<times> nat)) list" where
  "TIMES_TABLE = create_times_table"

record PauliGroupElement =
  phase :: complex
  sigma :: SIGMA_enum

text \<open>The generated constructor followed by \<^verbatim>\<open>__post_init__\<close>.\<close>

definition PauliGroupElement_init :: "complex \<Rightarrow> SIGMA_enum \<Rightarrow> error + PauliGroupElement" where
  "PauliGroupElement_init p s =
     (if p \<notin> {1, - 1, \<i>, - \<i>} then Inl InvalidPhaseError
      else Inr \<lparr>PauliGroupElement.phase = p, sigma = s\<rparr>)"

text \<open>\<^verbatim>\<open>__mul__\<close>, the branch \<^verbatim>\<open>isinstance(other, Complex)\<close>.\<close>

definition PauliGroupElement_mul_scalar ::
  "PauliGroupElement \<Rightarrow> complex \<Rightarrow> error + PauliGroupElement" where
  "PauliGroupElement_mul_scalar self other =
     PauliGroupElement_init (PauliGroupElement.phase self * other) (sigma self)"

text \<open>\<^verbatim>\<open>__mul__\<close>, the branch \<^verbatim>\<open>isinstance(other, PauliGroupElement)\<close>.\<close>

definition PauliGroupElement_mul_group ::
  "PauliGroupElement \<Rightarrow> PauliGroupElement \<Rightarrow> error + PauliGroupElement" where
  "PauliGroupElement_mul_group self other =
     (let combined_phase = PauliGroupElement.phase self * PauliGroupElement.phase other in
      sum_bind (list_index SIGMA_LIST (sigma self)) (\<lambda>self_idx.
      sum_bind (list_index SIGMA_LIST (sigma other)) (\<lambda>other_idx.
      sum_bind (dict_get TIMES_TABLE (self_idx, other_idx)) (\<lambda>(table_phase, sigma_idx).
      sum_bind (list_get SIGMA_LIST sigma_idx) (\<lambda>s.
        PauliGroupElement_init (combined_phase * table_phase) s)))))"

text \<open>\<^verbatim>\<open>__neg__\<close> is \<^verbatim>\<open>-1 * self\<close>: \<^verbatim>\<open>int.__mul__\<close> returns \<^verbatim>\<open>NotImplemented\<close>, so
  \<^verbatim>\<open>self.__rmul__(-1)\<close> runs, which is \<^verbatim>\<open>self * -1\<close>.\<close>

definition PauliGroupElement_neg :: "PauliGroupElement \<Rightarrow> error + PauliGroupElement" where
  "PauliGroupElement_neg self = PauliGroupElement_mul_scalar self (- 1)"

definition PauliGroupElement_I :: "error + PauliGroupElement" where
  "PauliGroupElement_I = PauliGroupElement_init 1 I"

definition PauliGroupElement_X :: "error + PauliGroupElement" where
  "PauliGroupElement_X = PauliGroupElement_init 1 X"

definition PauliGroupElement_Y :: "error + PauliGroupElement" where
  "PauliGroupElement_Y = PauliGroupElement_init 1 Y"

definition PauliGroupElement_Z :: "error + PauliGroupElement" where
  "PauliGroupElement_Z = PauliGroupElement_init 1 Z"

text \<open>The class invariant that \<^verbatim>\<open>__post_init__\<close> establishes for every group element.\<close>

definition valid_group :: "PauliGroupElement \<Rightarrow> bool" where
  "valid_group g = (PauliGroupElement.phase g \<in> {1, - 1, \<i>, - \<i>})"


section \<open>Tensor layer (\<^verbatim>\<open>pauli_algebra.py\<close>, class \<^verbatim>\<open>PauliTensor\<close>)\<close>

record PauliTensor =
  phase :: complex
  tensor :: "PauliGroupElement list"

text \<open>The generated constructor validates nothing: any phase and any tuple of group
  elements, the empty one included, make a tensor. The default value of the field
  \<^verbatim>\<open>tensor\<close> is built by \<^verbatim>\<open>PauliGroupElement(1, SIGMA.I)\<close>.\<close>

definition PauliTensor_default :: "error + PauliTensor" where
  "PauliTensor_default =
     sum_bind (PauliGroupElement_init 1 I)
       (\<lambda>g. Inr \<lparr>PauliTensor.phase = 1, tensor = [g]\<rparr>)"

definition dim :: "PauliTensor \<Rightarrow> nat" where
  "dim self = length (tensor self)"

definition overall_phase :: "PauliTensor \<Rightarrow> complex" where
  "overall_phase self =
     PauliTensor.phase self * prod_list (map PauliGroupElement.phase (tensor self))"

definition factor_phase :: "PauliTensor \<Rightarrow> error + PauliTensor" where
  "factor_phase self =
     sum_bind
       (traverse
          (\<lambda>factor. sum_bind (py_truediv 1 (PauliGroupElement.phase factor))
             (PauliGroupElement_mul_scalar factor))
          (tensor self))
       (\<lambda>phaseless. Inr \<lparr>PauliTensor.phase = overall_phase self, tensor = phaseless\<rparr>)"

text \<open>\<^verbatim>\<open>__eq__\<close> on two tensors. Group elements keep the generated field-wise equality,
  which is the equality of the record.\<close>

definition PauliTensor_eq :: "PauliTensor \<Rightarrow> PauliTensor \<Rightarrow> error + bool" where
  "PauliTensor_eq self other =
     sum_bind (factor_phase self) (\<lambda>s_factored.
     sum_bind (factor_phase other) (\<lambda>o_factored.
       Inr (PauliTensor.phase s_factored = PauliTensor.phase o_factored
            \<and> tensor s_factored = tensor o_factored)))"

text \<open>\<^verbatim>\<open>__mul__\<close> and \<^verbatim>\<open>__rmul__\<close>, the branch \<^verbatim>\<open>isinstance(other, Complex)\<close> (the two
  bodies are the same).\<close>

definition PauliTensor_mul_scalar :: "PauliTensor \<Rightarrow> complex \<Rightarrow> PauliTensor" where
  "PauliTensor_mul_scalar self other =
     \<lparr>PauliTensor.phase = PauliTensor.phase self * other, tensor = tensor self\<rparr>"

text \<open>\<^verbatim>\<open>__mul__\<close>, the branch \<^verbatim>\<open>isinstance(other, PauliTensor)\<close>. The last line,
  \<^verbatim>\<open>phase * tensor.factor_phase()\<close>, has a scalar on the left: it runs \<^verbatim>\<open>__rmul__\<close> of
  the tensor.\<close>

definition PauliTensor_mul_tensor :: "PauliTensor \<Rightarrow> PauliTensor \<Rightarrow> error + PauliTensor" where
  "PauliTensor_mul_tensor self other =
     (if dim self \<noteq> dim other then Inl DimensionMismatchError
      else
        sum_bind (factor_phase self) (\<lambda>s_simple.
        sum_bind (factor_phase other) (\<lambda>o_simple.
          let product_phase = PauliTensor.phase s_simple * PauliTensor.phase o_simple in
          sum_bind
            (traverse (\<lambda>(s_factor, o_factor). PauliGroupElement_mul_group s_factor o_factor)
               (zip (tensor s_simple) (tensor o_simple)))
            (\<lambda>factors.
               sum_bind (factor_phase \<lparr>PauliTensor.phase = 1, tensor = factors\<rparr>)
                 (\<lambda>product. Inr (PauliTensor_mul_scalar product product_phase))))))"

text \<open>\<^verbatim>\<open>__neg__\<close> is \<^verbatim>\<open>-1 * self\<close>, that is \<^verbatim>\<open>self.__rmul__(-1)\<close>.\<close>

definition PauliTensor_neg :: "PauliTensor \<Rightarrow> PauliTensor" where
  "PauliTensor_neg self = PauliTensor_mul_scalar self (- 1)"

text \<open>\<^verbatim>\<open>SIGMA[c]\<close>: the lookup of an enum member by name.\<close>

definition SIGMA_getitem :: "char \<Rightarrow> error + SIGMA_enum" where
  "SIGMA_getitem c =
     (if c = CHR ''I'' then Inr I
      else if c = CHR ''X'' then Inr X
      else if c = CHR ''Y'' then Inr Y
      else if c = CHR ''Z'' then Inr Z
      else Inl KeyError)"

definition PauliTensor_from_str :: "string \<Rightarrow> error + PauliTensor" where
  "PauliTensor_from_str string =
     sum_bind
       (traverse (\<lambda>c. sum_bind (SIGMA_getitem c) (PauliGroupElement_init 1)) string)
       (\<lambda>factors. Inr \<lparr>PauliTensor.phase = 1, tensor = factors\<rparr>)"

definition valid_tensor :: "PauliTensor \<Rightarrow> bool" where
  "valid_tensor t = list_all valid_group (tensor t)"


section \<open>Algebra layer (class \<^verbatim>\<open>PauliAlgebraElement\<close>)\<close>

text \<open>
  The field \<^verbatim>\<open>coeffs\<close> is a Python dict with tensors as keys. \<^verbatim>\<open>PauliTensor\<close> is a
  frozen dataclass that defines \<^verbatim>\<open>__eq__\<close> itself and no \<^verbatim>\<open>__hash__\<close>, so the dataclass
  generates \<^verbatim>\<open>__hash__\<close> from the raw fields: \<^verbatim>\<open>hash((self.phase, self.tensor))\<close>. A
  dict finds a key by its hash first and calls \<^verbatim>\<open>__eq__\<close> only among keys of one hash.
  The embedding takes the hash of the field tuple to be free of collisions. Then two
  tensors are one key exactly when their raw fields agree, which is the equality of the
  record (and such tensors are equal under \<^verbatim>\<open>__eq__\<close> too). A dict is an association list
  with distinct keys in insertion order.
\<close>

type_synonym coeff_dict = "(PauliTensor \<times> complex) list"

record PauliAlgebraElement =
  coeffs :: coeff_dict

text \<open>\<^verbatim>\<open>d[k] = v\<close>.\<close>

fun dict_set :: "'k \<Rightarrow> 'v \<Rightarrow> ('k \<times> 'v) list \<Rightarrow> ('k \<times> 'v) list" where
  "dict_set k v [] = [(k, v)]"
| "dict_set k v ((k', v') # d) =
     (if k' = k then (k', v) # d else (k', v') # dict_set k v d)"

text \<open>\<^verbatim>\<open>d[k] += v\<close> on a \<^verbatim>\<open>defaultdict(complex)\<close> or \<^verbatim>\<open>defaultdict(int)\<close>: a missing key
  starts from zero.\<close>

fun dict_add_to :: "'k \<Rightarrow> complex \<Rightarrow> ('k \<times> complex) list \<Rightarrow> ('k \<times> complex) list" where
  "dict_add_to k v [] = [(k, 0 + v)]"
| "dict_add_to k v ((k', v') # d) =
     (if k' = k then (k', v' + v) # d else (k', v') # dict_add_to k v d)"

text \<open>A dict display \<^verbatim>\<open>{k1: v1, k2: v2, ...}\<close>: the items are stored left to right.\<close>

definition dict_of :: "('k \<times> 'v) list \<Rightarrow> ('k \<times> 'v) list" where
  "dict_of items = fold (\<lambda>(k, v) d. dict_set k v d) items []"

text \<open>\<^verbatim>\<open>d1 == d2\<close> on dicts: the same number of keys, and every key of the first is in
  the second with an equal value.\<close>

definition dict_eq :: "('k \<times> 'v) list \<Rightarrow> ('k \<times> 'v) list \<Rightarrow> bool" where
  "dict_eq d1 d2 =
     (length d1 = length d2 \<and> list_all (\<lambda>(k, v). map_of d2 k = Some v) d1)"

definition PauliAlgebraElement_from_str :: "string \<Rightarrow> error + PauliAlgebraElement" where
  "PauliAlgebraElement_from_str string =
     sum_bind (PauliTensor_from_str string)
       (\<lambda>t. Inr \<lparr>coeffs = dict_of [(t, 1)]\<rparr>)"

text \<open>The loop of \<^verbatim>\<open>simplify\<close>. In \<^verbatim>\<open>new_coeffs[key] += value\<close> the key is evaluated
  first. The phase of the key is the product \<^verbatim>\<open>factored_phase * (1 / factored_phase)\<close>. In
  the exact arithmetic of the embedding this product is 1 for every phase other than 0;
  in the floating-point arithmetic of the source it is 1 where the division and the
  product are exact, as they are for the fourth roots of unity, and can differ from 1 in
  the last place otherwise (at the phase 49, say). The statements below that name a key
  of phase 1 are therefore restricted to tensors whose phase is a fourth root of
  unity, or are evaluations at such tensors.\<close>

fun simplify_loop :: "coeff_dict \<Rightarrow> coeff_dict \<Rightarrow> error + coeff_dict" where
  "simplify_loop [] new_coeffs = Inr new_coeffs"
| "simplify_loop ((raw_tensor, coeff) # items) new_coeffs =
     sum_bind (factor_phase raw_tensor) (\<lambda>factored_tensor.
       let factored_phase = PauliTensor.phase factored_tensor in
       sum_bind (py_truediv 1 factored_phase) (\<lambda>inverse.
         simplify_loop items
           (dict_add_to (PauliTensor_mul_scalar factored_tensor inverse)
              (coeff * factored_phase) new_coeffs)))"

definition simplify :: "PauliAlgebraElement \<Rightarrow> error + PauliAlgebraElement" where
  "simplify self =
     sum_bind (simplify_loop (coeffs self) []) (\<lambda>new_coeffs. Inr \<lparr>coeffs = new_coeffs\<rparr>)"

definition PauliAlgebraElement_eq ::
  "PauliAlgebraElement \<Rightarrow> PauliAlgebraElement \<Rightarrow> error + bool" where
  "PauliAlgebraElement_eq self other =
     sum_bind (simplify self) (\<lambda>s.
     sum_bind (simplify other) (\<lambda>o'. Inr (dict_eq (coeffs s) (coeffs o'))))"

definition PauliAlgebraElement_add ::
  "PauliAlgebraElement \<Rightarrow> PauliAlgebraElement \<Rightarrow> PauliAlgebraElement" where
  "PauliAlgebraElement_add self other =
     \<lparr>coeffs = fold (\<lambda>(t, coeff) sum_coeffs. dict_add_to t coeff sum_coeffs)
                 (coeffs self @ coeffs other) []\<rparr>"

text \<open>\<^verbatim>\<open>__mul__\<close>, the branch \<^verbatim>\<open>isinstance(other, Complex)\<close>: a dict comprehension.\<close>

definition PauliAlgebraElement_mul_scalar ::
  "PauliAlgebraElement \<Rightarrow> complex \<Rightarrow> PauliAlgebraElement" where
  "PauliAlgebraElement_mul_scalar self other =
     \<lparr>coeffs = dict_of (map (\<lambda>(t, coeff). (t, other * coeff)) (coeffs self))\<rparr>"

text \<open>\<^verbatim>\<open>__mul__\<close>, the branch \<^verbatim>\<open>isinstance(other, PauliAlgebraElement)\<close>: the loop over
  \<^verbatim>\<open>it.product(self.coeffs.items(), other.coeffs.items())\<close>.\<close>

fun product_loop ::
  "((PauliTensor \<times> complex) \<times> (PauliTensor \<times> complex)) list \<Rightarrow> coeff_dict
     \<Rightarrow> error + coeff_dict" where
  "product_loop [] product_coeffs = Inr product_coeffs"
| "product_loop (((s_tensor, s_coeff), (o_tensor, o_coeff)) # pairs) product_coeffs =
     sum_bind (PauliTensor_mul_tensor s_tensor o_tensor) (\<lambda>key.
       product_loop pairs (dict_add_to key (s_coeff * o_coeff) product_coeffs))"

definition PauliAlgebraElement_mul_algebra ::
  "PauliAlgebraElement \<Rightarrow> PauliAlgebraElement \<Rightarrow> error + PauliAlgebraElement" where
  "PauliAlgebraElement_mul_algebra self other =
     sum_bind (product_loop (List.product (coeffs self) (coeffs other)) [])
       (\<lambda>product_coeffs. Inr \<lparr>coeffs = product_coeffs\<rparr>)"

text \<open>\<^verbatim>\<open>__mul__\<close>, the branch \<^verbatim>\<open>isinstance(other, PauliTensor)\<close>.\<close>

definition PauliAlgebraElement_mul_tensor ::
  "PauliAlgebraElement \<Rightarrow> PauliTensor \<Rightarrow> error + PauliAlgebraElement" where
  "PauliAlgebraElement_mul_tensor self other =
     (let other_algebra_elt = \<lparr>coeffs = dict_of [(other, 1)]\<rparr>
      in PauliAlgebraElement_mul_algebra self other_algebra_elt)"

definition PauliAlgebraElement_neg :: "PauliAlgebraElement \<Rightarrow> PauliAlgebraElement" where
  "PauliAlgebraElement_neg self = PauliAlgebraElement_mul_scalar self (- 1)"

definition valid_algebra :: "PauliAlgebraElement \<Rightarrow> bool" where
  "valid_algebra a = list_all (\<lambda>(t, c). valid_tensor t) (coeffs a)"


section \<open>Operators and their dispatch on the operand's class\<close>

text \<open>
  A Python value that can be an operand: a scalar (an instance of \<^verbatim>\<open>numbers.Complex\<close>),
  a value of one of the three classes, or \<open>Other\<close>, a value of a class that knows
  none of them (its own methods return \<^verbatim>\<open>NotImplemented\<close>, as those of \<^verbatim>\<open>None\<close> do).
  A method returns \<open>None\<close> for \<^verbatim>\<open>NotImplemented\<close>.
\<close>

datatype pyval =
    Scalar complex
  | Group PauliGroupElement
  | Tensor PauliTensor
  | Algebra PauliAlgebraElement
  | Other

fun PauliGroupElement_mul :: "PauliGroupElement \<Rightarrow> pyval \<Rightarrow> (error + pyval) option" where
  "PauliGroupElement_mul self (Scalar z) =
     Some (map_sum id Group (PauliGroupElement_mul_scalar self z))"
| "PauliGroupElement_mul self (Group g) =
     Some (map_sum id Group (PauliGroupElement_mul_group self g))"
| "PauliGroupElement_mul self _ = None"

fun PauliGroupElement_rmul :: "PauliGroupElement \<Rightarrow> pyval \<Rightarrow> (error + pyval) option" where
  "PauliGroupElement_rmul self (Scalar z) = PauliGroupElement_mul self (Scalar z)"
| "PauliGroupElement_rmul self _ = None"

fun PauliTensor_mul :: "PauliTensor \<Rightarrow> pyval \<Rightarrow> (error + pyval) option" where
  "PauliTensor_mul self (Scalar z) = Some (Inr (Tensor (PauliTensor_mul_scalar self z)))"
| "PauliTensor_mul self (Tensor t) =
     Some (map_sum id Tensor (PauliTensor_mul_tensor self t))"
| "PauliTensor_mul self _ = None"

fun PauliTensor_rmul :: "PauliTensor \<Rightarrow> pyval \<Rightarrow> (error + pyval) option" where
  "PauliTensor_rmul self (Scalar z) = Some (Inr (Tensor (PauliTensor_mul_scalar self z)))"
| "PauliTensor_rmul self _ = None"

fun PauliAlgebraElement_mul :: "PauliAlgebraElement \<Rightarrow> pyval \<Rightarrow> (error + pyval) option" where
  "PauliAlgebraElement_mul self (Scalar z) =
     Some (Inr (Algebra (PauliAlgebraElement_mul_scalar self z)))"
| "PauliAlgebraElement_mul self (Algebra a) =
     Some (map_sum id Algebra (PauliAlgebraElement_mul_algebra self a))"
| "PauliAlgebraElement_mul self (Tensor t) =
     Some (map_sum id Algebra (PauliAlgebraElement_mul_tensor self t))"
| "PauliAlgebraElement_mul self _ = None"

text \<open>\<^verbatim>\<open>__rmul__\<close> of the algebra element: both branches are \<^verbatim>\<open>return self * other\<close>,
  with \<^verbatim>\<open>self\<close> on the left.\<close>

fun PauliAlgebraElement_rmul :: "PauliAlgebraElement \<Rightarrow> pyval \<Rightarrow> (error + pyval) option" where
  "PauliAlgebraElement_rmul self (Scalar z) = PauliAlgebraElement_mul self (Scalar z)"
| "PauliAlgebraElement_rmul self (Tensor t) = PauliAlgebraElement_mul self (Tensor t)"
| "PauliAlgebraElement_rmul self _ = None"

fun dunder_mul :: "pyval \<Rightarrow> pyval \<Rightarrow> (error + pyval) option" where
  "dunder_mul (Scalar z) (Scalar w) = Some (Inr (Scalar (z * w)))"
| "dunder_mul (Scalar z) _ = None"
| "dunder_mul (Group g) other = PauliGroupElement_mul g other"
| "dunder_mul (Tensor t) other = PauliTensor_mul t other"
| "dunder_mul (Algebra a) other = PauliAlgebraElement_mul a other"
| "dunder_mul Other _ = None"

fun dunder_rmul :: "pyval \<Rightarrow> pyval \<Rightarrow> (error + pyval) option" where
  "dunder_rmul (Scalar z) (Scalar w) = Some (Inr (Scalar (w * z)))"
| "dunder_rmul (Scalar z) _ = None"
| "dunder_rmul (Group g) other = PauliGroupElement_rmul g other"
| "dunder_rmul (Tensor t) other = PauliTensor_rmul t other"
| "dunder_rmul (Algebra a) other = PauliAlgebraElement_rmul a other"
| "dunder_rmul Other _ = None"

fun same_class :: "pyval \<Rightarrow> pyval \<Rightarrow> bool" where
  "same_class (Group _) (Group _) = True"
| "same_class (Tensor _) (Tensor _) = True"
| "same_class (Algebra _) (Algebra _) = True"
| "same_class _ _ = False"

text \<open>The operator \<^verbatim>\<open>a * b\<close>: \<^verbatim>\<open>a.__mul__(b)\<close>; when that returns \<^verbatim>\<open>NotImplemented\<close>
  and the classes differ, \<^verbatim>\<open>b.__rmul__(a)\<close>; when both do, \<^verbatim>\<open>TypeError\<close>.\<close>

definition py_mul :: "pyval \<Rightarrow> pyval \<Rightarrow> error + pyval" where
  "py_mul a b =
     (case dunder_mul a b of
        Some r \<Rightarrow> r
      | None \<Rightarrow>
          (if same_class a b then Inl UnsupportedOperandError
           else (case dunder_rmul b a of
                   Some r \<Rightarrow> r
                 | None \<Rightarrow> Inl UnsupportedOperandError)))"

text \<open>The operator \<^verbatim>\<open>a + b\<close>: only \<^verbatim>\<open>PauliAlgebraElement\<close> defines \<^verbatim>\<open>__add__\<close>, and no
  class of the library defines \<^verbatim>\<open>__radd__\<close>.\<close>

fun py_add :: "pyval \<Rightarrow> pyval \<Rightarrow> error + pyval" where
  "py_add (Scalar z) (Scalar w) = Inr (Scalar (z + w))"
| "py_add (Algebra a) (Algebra b) = Inr (Algebra (PauliAlgebraElement_add a b))"
| "py_add _ _ = Inl UnsupportedOperandError"

text \<open>The operator \<^verbatim>\<open>-a\<close>.\<close>

fun py_neg :: "pyval \<Rightarrow> error + pyval" where
  "py_neg (Scalar z) = Inr (Scalar (- z))"
| "py_neg (Group g) = map_sum id Group (PauliGroupElement_neg g)"
| "py_neg (Tensor t) = Inr (Tensor (PauliTensor_neg t))"
| "py_neg (Algebra a) = Inr (Algebra (PauliAlgebraElement_neg a))"
| "py_neg Other = Inl UnsupportedOperandError"

fun valid_pyval :: "pyval \<Rightarrow> bool" where
  "valid_pyval (Group g) = valid_group g"
| "valid_pyval (Tensor t) = valid_tensor t"
| "valid_pyval (Algebra a) = valid_algebra a"
| "valid_pyval _ = True"


section \<open>Notions used in the statements\<close>

text \<open>The position of a label in \<^verbatim>\<open>SIGMA_LIST\<close>, and the two components of the entry of
  the multiplication table for a pair of labels.\<close>

definition SIGMA_ordinal :: "SIGMA_enum \<Rightarrow> nat" where
  "SIGMA_ordinal s = (case s of I \<Rightarrow> 0 | X \<Rightarrow> 1 | Y \<Rightarrow> 2 | Z \<Rightarrow> 3)"

definition table_phase :: "SIGMA_enum \<Rightarrow> SIGMA_enum \<Rightarrow> complex" where
  "table_phase s1 s2 = fst (times_table_entry (SIGMA_ordinal s1) (SIGMA_ordinal s2))"

definition table_label :: "SIGMA_enum \<Rightarrow> SIGMA_enum \<Rightarrow> SIGMA_enum" where
  "table_label s1 s2 =
     SIGMA_LIST ! snd (times_table_entry (SIGMA_ordinal s1) (SIGMA_ordinal s2))"

text \<open>The Levi-Civita symbol on indices in \<open>1..3\<close>: \<open>1\<close> on the even permutations of
  \<open>(1, 2, 3)\<close>, \<open>-1\<close> on the odd ones, \<open>0\<close> when two indices agree.\<close>

definition levi_civita :: "nat \<Rightarrow> nat \<Rightarrow> nat \<Rightarrow> int" where
  "levi_civita j k l = (int j - int k) * (int k - int l) * (int l - int j) div 2"

text \<open>The expressions \<^verbatim>\<open>x * y\<close>, \<^verbatim>\<open>z * y\<close> (a scalar on the left) and \<^verbatim>\<open>-x\<close> on
  group elements that are themselves results of expressions.\<close>

definition group_times ::
  "error + PauliGroupElement \<Rightarrow> error + PauliGroupElement \<Rightarrow> error + PauliGroupElement" where
  "group_times x y = sum_bind x (\<lambda>a. sum_bind y (\<lambda>b. PauliGroupElement_mul_group a b))"

definition scalar_times ::
  "complex \<Rightarrow> error + PauliGroupElement \<Rightarrow> error + PauliGroupElement" where
  "scalar_times z y = sum_bind y (\<lambda>b. PauliGroupElement_mul_scalar b z)"

definition group_negated :: "error + PauliGroupElement \<Rightarrow> error + PauliGroupElement" where
  "group_negated x = sum_bind x PauliGroupElement_neg"


definition dephased :: "PauliGroupElement \<Rightarrow> PauliGroupElement" where
  "dephased factor = \<lparr>PauliGroupElement.phase = 1, sigma = sigma factor\<rparr>"

definition table_phases :: "PauliGroupElement list \<Rightarrow> PauliGroupElement list \<Rightarrow> complex list" where
  "table_phases fs gs = map (\<lambda>(f, g). table_phase (sigma f) (sigma g)) (zip fs gs)"

definition table_labels ::
  "PauliGroupElement list \<Rightarrow> PauliGroupElement list \<Rightarrow> PauliGroupElement list" where
  "table_labels fs gs =
     map (\<lambda>(f, g). \<lparr>PauliGroupElement.phase = 1, sigma = table_label (sigma f) (sigma g)\<rparr>)
       (zip fs gs)"


text \<open>The expressions \<^verbatim>\<open>x * y\<close> and \<^verbatim>\<open>x == y\<close> on tensors that are themselves results of
  expressions.\<close>

definition tensor_times :: "error + PauliTensor \<Rightarrow> error + PauliTensor \<Rightarrow> error + PauliTensor" where
  "tensor_times x y = sum_bind x (\<lambda>a. sum_bind y (\<lambda>b. PauliTensor_mul_tensor a b))"

definition tensor_equal :: "error + PauliTensor \<Rightarrow> error + PauliTensor \<Rightarrow> error + bool" where
  "tensor_equal x y = sum_bind x (\<lambda>a. sum_bind y (\<lambda>b. PauliTensor_eq a b))"


text \<open>Every term tensor of the left operand has as many factors as every term tensor of
  the right operand.\<close>

definition dims_agree :: "PauliAlgebraElement \<Rightarrow> PauliAlgebraElement \<Rightarrow> bool" where
  "dims_agree a b =
     list_all (\<lambda>((s_tensor, s_coeff), (o_tensor, o_coeff)). dim s_tensor = dim o_tensor)
       (List.product (coeffs a) (coeffs b))"


text \<open>The key that \<^verbatim>\<open>simplify\<close> computes for a term tensor, as the source writes it: the
  normalized tensor times the inverse of its phase. The accumulation of \<^verbatim>\<open>simplify\<close>:
  the phase of each key moves into its coefficient.\<close>

definition simple_key :: "PauliTensor \<Rightarrow> PauliTensor" where
  "simple_key t =
     PauliTensor_mul_scalar
       \<lparr>PauliTensor.phase = overall_phase t, tensor = map dephased (tensor t)\<rparr>
       (1 / overall_phase t)"

text \<open>The fourth roots of unity.\<close>

definition fourth_roots :: "complex set" where
  "fourth_roots = {1, - 1, \<i>, - \<i>}"

definition simplified_coeffs :: "coeff_dict \<Rightarrow> coeff_dict \<Rightarrow> coeff_dict" where
  "simplified_coeffs items new_coeffs =
     fold (\<lambda>(t, c) d. dict_add_to (simple_key t) (c * overall_phase t) d) items new_coeffs"

definition nonzero_keys :: "PauliAlgebraElement \<Rightarrow> bool" where
  "nonzero_keys a = list_all (\<lambda>(t, c). overall_phase t \<noteq> 0) (coeffs a)"

text \<open>The tuple of raw fields that the generated \<^verbatim>\<open>__hash__\<close> of \<^verbatim>\<open>PauliTensor\<close> hashes.\<close>

definition PauliTensor_hash_fields :: "PauliTensor \<Rightarrow> complex \<times> PauliGroupElement list" where
  "PauliTensor_hash_fields self = (PauliTensor.phase self, tensor self)"


text \<open>The names of the members of \<^verbatim>\<open>SIGMA\<close>.\<close>

definition SIGMA_names :: "char set" where
  "SIGMA_names = {CHR ''I'', CHR ''X'', CHR ''Y'', CHR ''Z''}"


section \<open>Basic facts\<close>

lemma sum_bind_simps [simp]:
  "sum_bind (Inl e) f = Inl e" "sum_bind (Inr x) f = f x"
  by (simp_all add: sum_bind_def)

lemma list_index_SIGMA: "list_index SIGMA_LIST s = Inr (SIGMA_ordinal s)"
  by (cases s) (simp_all add: SIGMA_LIST_def SIGMA_ordinal_def)

lemma SIGMA_ordinal_less: "SIGMA_ordinal s < 4"
  by (cases s) (simp_all add: SIGMA_ordinal_def)

lemma TIMES_TABLE_eval:
  "TIMES_TABLE =
    [((0,0),(1,0)), ((0,1),(1,1)), ((0,2),(1,2)), ((0,3),(1,3)),
     ((1,0),(1,1)), ((1,1),(1,0)), ((1,2),(\<i>,3)), ((1,3),(-\<i>,2)),
     ((2,0),(1,2)), ((2,1),(-\<i>,3)), ((2,2),(1,0)), ((2,3),(\<i>,1)),
     ((3,0),(1,3)), ((3,1),(\<i>,2)), ((3,2),(-\<i>,1)), ((3,3),(1,0))]"
proof -
  have u: "[0..<4] = [0, 1, 2, 3::nat]" by code_simp
  show ?thesis
    by (simp add: TIMES_TABLE_def create_times_table_def times_table_entry_def sign_def u)
qed

lemma dict_get_TIMES_TABLE:
  assumes "i < 4" "j < 4"
  shows "dict_get TIMES_TABLE (i, j) = Inr (times_table_entry i j)"
proof -
  from assms have "i \<in> {0,1,2,3}" "j \<in> {0,1,2,3}" by auto
  then show ?thesis
    by (auto simp add: dict_get_def TIMES_TABLE_eval times_table_entry_def sign_def)
qed

lemma table_values:
  "table_phase I s = 1" "table_phase s I = 1" "table_phase s s = 1"
  "table_phase X Y = \<i>" "table_phase Y Z = \<i>" "table_phase Z X = \<i>"
  "table_phase Y X = - \<i>" "table_phase Z Y = - \<i>" "table_phase X Z = - \<i>"
  "table_label I s = s" "table_label s I = s" "table_label s s = I"
  "table_label X Y = Z" "table_label Y Z = X" "table_label Z X = Y"
  "table_label Y X = Z" "table_label Z Y = X" "table_label X Z = Y"
  by (cases s; simp add: table_phase_def table_label_def times_table_entry_def
        SIGMA_ordinal_def SIGMA_LIST_def sign_def)+

lemma table_phase_valid: "table_phase s1 s2 \<in> {1, \<i>, - \<i>}"
  by (cases s1; cases s2; simp add: table_values)

lemma table_entry_in_range:
  "snd (times_table_entry (SIGMA_ordinal s1) (SIGMA_ordinal s2)) < 4"
  by (cases s1; cases s2; simp add: times_table_entry_def SIGMA_ordinal_def)

lemma valid_times:
  "p \<in> {1, - 1, \<i>, - \<i>} \<Longrightarrow> q \<in> {1, - 1, \<i>, - \<i>} \<Longrightarrow> p * q \<in> {1, - 1, \<i>, - \<i>}"
  by auto

lemma PauliGroupElement_mul_group_valid:
  assumes "valid_group a" "valid_group b"
  shows "PauliGroupElement_mul_group a b =
     Inr \<lparr>PauliGroupElement.phase =
            PauliGroupElement.phase a * PauliGroupElement.phase b
              * table_phase (sigma a) (sigma b),
          sigma = table_label (sigma a) (sigma b)\<rparr>"
proof -
  have tp: "table_phase (sigma a) (sigma b) \<in> {1, - 1, \<i>, - \<i>}"
    using table_phase_valid[of "sigma a" "sigma b"] by auto
  have ab: "PauliGroupElement.phase a * PauliGroupElement.phase b \<in> {1, - 1, \<i>, - \<i>}"
    using assms unfolding valid_group_def by (rule valid_times)
  have v: "PauliGroupElement.phase a * PauliGroupElement.phase b
             * table_phase (sigma a) (sigma b) \<in> {1, - 1, \<i>, - \<i>}"
    using ab tp by (rule valid_times)
  obtain tph idx where
    e: "times_table_entry (SIGMA_ordinal (sigma a)) (SIGMA_ordinal (sigma b)) = (tph, idx)"
    by (cases "times_table_entry (SIGMA_ordinal (sigma a)) (SIGMA_ordinal (sigma b))")
  have idx: "idx < 4" using table_entry_in_range[of "sigma a" "sigma b"] e by simp
  have tph: "tph = table_phase (sigma a) (sigma b)" by (simp add: table_phase_def e)
  have lbl: "SIGMA_LIST ! idx = table_label (sigma a) (sigma b)"
    by (simp add: table_label_def e)
  have len: "length SIGMA_LIST = 4" by (simp add: SIGMA_LIST_def)
  show ?thesis
    unfolding PauliGroupElement_mul_group_def Let_def list_index_SIGMA
    using v
    by (simp add: dict_get_TIMES_TABLE SIGMA_ordinal_less e list_get_def idx len
        PauliGroupElement_init_def tph[symmetric] lbl[symmetric] del: insert_iff)
qed

lemma init_unit: "PauliGroupElement_init 1 g = Inr \<lparr>PauliGroupElement.phase = 1, sigma = g\<rparr>"
  by (simp add: PauliGroupElement_init_def)

lemma valid_unit: "valid_group \<lparr>PauliGroupElement.phase = 1, sigma = g\<rparr>"
  by (simp add: valid_group_def)

lemma unit_times:
  "group_times (Inr \<lparr>PauliGroupElement.phase = 1, sigma = g1\<rparr>)
       (Inr \<lparr>PauliGroupElement.phase = 1, sigma = g2\<rparr>) =
     Inr \<lparr>PauliGroupElement.phase = table_phase g1 g2, sigma = table_label g1 g2\<rparr>"
  by (simp add: group_times_def PauliGroupElement_mul_group_valid valid_unit)

lemma levi_civita_table:
  assumes "j \<in> {1, 2, 3}" "k \<in> {1, 2, 3}" "j \<noteq> k"
  shows "dict_get TIMES_TABLE (j, k) =
           Inr (\<i> * of_int (levi_civita j k (6 - j - k)), 6 - j - k)"
  using assms by (auto simp add: dict_get_def TIMES_TABLE_eval levi_civita_def)


section \<open>The group layer's multiplication\<close>

text \<open>
  Claim C6. Group-element multiplication realizes the Pauli relation
  \<open>\<sigma>\<^sub>j \<sigma>\<^sub>k = i \<epsilon>\<^sub>j\<^sub>k\<^sub>l \<sigma>\<^sub>l\<close> together with the identity cases. For every base label
  \<open>g\<close>: \<open>g * g = I\<close> and \<open>g * I = I * g = g\<close>; \<open>X * Y = i Z\<close>, \<open>Y * Z = i X\<close>, \<open>Z * X = i Y\<close>;
  two distinct labels other than \<open>I\<close> anticommute, \<open>g1 * g2 = - (g2 * g1)\<close>; the product
  of two group elements has the phase \<open>a.phase * b.phase * table_phase\<close> and the label of
  the table, where the table's entry for two distinct indices \<open>j, k\<close> in \<open>1..3\<close> is
  \<open>(i * \<epsilon> j k l, l)\<close> with \<open>l = 6 - j - k\<close>.
\<close>

theorem group_mul_pauli_relation:
  "group_times (PauliGroupElement_init 1 g) (PauliGroupElement_init 1 g) = PauliGroupElement_I
   \<and> group_times (PauliGroupElement_init 1 g) PauliGroupElement_I = PauliGroupElement_init 1 g
   \<and> group_times PauliGroupElement_I (PauliGroupElement_init 1 g) = PauliGroupElement_init 1 g
   \<and> group_times PauliGroupElement_X PauliGroupElement_Y = scalar_times \<i> PauliGroupElement_Z
   \<and> group_times PauliGroupElement_Y PauliGroupElement_Z = scalar_times \<i> PauliGroupElement_X
   \<and> group_times PauliGroupElement_Z PauliGroupElement_X = scalar_times \<i> PauliGroupElement_Y
   \<and> (g1 \<noteq> I \<and> g2 \<noteq> I \<and> g1 \<noteq> g2 \<longrightarrow>
        group_times (PauliGroupElement_init 1 g1) (PauliGroupElement_init 1 g2) =
        group_negated (group_times (PauliGroupElement_init 1 g2) (PauliGroupElement_init 1 g1)))
   \<and> (valid_group a \<and> valid_group b \<longrightarrow>
        PauliGroupElement_mul_group a b =
          Inr \<lparr>PauliGroupElement.phase =
                 PauliGroupElement.phase a * PauliGroupElement.phase b
                   * table_phase (sigma a) (sigma b),
               sigma = table_label (sigma a) (sigma b)\<rparr>
        \<and> sum_bind (list_index SIGMA_LIST (sigma a)) (\<lambda>self_idx.
            sum_bind (list_index SIGMA_LIST (sigma b)) (\<lambda>other_idx.
              dict_get TIMES_TABLE (self_idx, other_idx))) =
            Inr (table_phase (sigma a) (sigma b), SIGMA_ordinal (table_label (sigma a) (sigma b))))
   \<and> (j \<in> {1, 2, 3} \<and> k \<in> {1, 2, 3} \<and> j \<noteq> k \<longrightarrow>
        dict_get TIMES_TABLE (j, k) =
          Inr (\<i> * of_int (levi_civita j k (6 - j - k)), 6 - j - k))"
proof -
  have sq: "group_times (PauliGroupElement_init 1 g) (PauliGroupElement_init 1 g) = PauliGroupElement_I"
    by (simp add: unit_times table_values PauliGroupElement_I_def init_unit)
  have idr: "group_times (PauliGroupElement_init 1 g) PauliGroupElement_I = PauliGroupElement_init 1 g"
    by (simp add: PauliGroupElement_I_def unit_times table_values init_unit)
  have idl: "group_times PauliGroupElement_I (PauliGroupElement_init 1 g) = PauliGroupElement_init 1 g"
    by (simp add: PauliGroupElement_I_def unit_times table_values init_unit)
  have cyc:
    "group_times PauliGroupElement_X PauliGroupElement_Y = scalar_times \<i> PauliGroupElement_Z"
    "group_times PauliGroupElement_Y PauliGroupElement_Z = scalar_times \<i> PauliGroupElement_X"
    "group_times PauliGroupElement_Z PauliGroupElement_X = scalar_times \<i> PauliGroupElement_Y"
    by (simp_all add: PauliGroupElement_X_def PauliGroupElement_Y_def PauliGroupElement_Z_def
        unit_times table_values scalar_times_def init_unit PauliGroupElement_mul_scalar_def
        PauliGroupElement_init_def)
  have anti: "g1 \<noteq> I \<and> g2 \<noteq> I \<and> g1 \<noteq> g2 \<longrightarrow>
        group_times (PauliGroupElement_init 1 g1) (PauliGroupElement_init 1 g2) =
        group_negated (group_times (PauliGroupElement_init 1 g2) (PauliGroupElement_init 1 g1))"
    by (cases g1; cases g2;
        simp add: init_unit unit_times table_values group_negated_def PauliGroupElement_neg_def
          PauliGroupElement_mul_scalar_def PauliGroupElement_init_def)
  have tbl: "sum_bind (list_index SIGMA_LIST (sigma a)) (\<lambda>self_idx.
            sum_bind (list_index SIGMA_LIST (sigma b)) (\<lambda>other_idx.
              dict_get TIMES_TABLE (self_idx, other_idx))) =
            Inr (table_phase (sigma a) (sigma b), SIGMA_ordinal (table_label (sigma a) (sigma b)))"
    by (cases "sigma a"; cases "sigma b";
        simp add: list_index_SIGMA dict_get_TIMES_TABLE SIGMA_ordinal_less table_values;
        simp add: SIGMA_ordinal_def times_table_entry_def sign_def)
  show ?thesis
    using sq idr idl cyc anti tbl PauliGroupElement_mul_group_valid[of a b]
      levi_civita_table[of j k]
    by blast
qed

theorem group_mul_pauli_relation_witness:
  "group_times PauliGroupElement_Y PauliGroupElement_X
     = group_negated (group_times PauliGroupElement_X PauliGroupElement_Y)
   \<and> PauliGroupElement_mul_group \<lparr>PauliGroupElement.phase = \<i>, sigma = Z\<rparr>
        \<lparr>PauliGroupElement.phase = - 1, sigma = Y\<rparr>
       = Inr \<lparr>PauliGroupElement.phase = - 1, sigma = X\<rparr>
   \<and> dict_get TIMES_TABLE (3, 1) = Inr (\<i>, 2)"
proof -
  note t = group_mul_pauli_relation[of I Y X "\<lparr>PauliGroupElement.phase = \<i>, sigma = Z\<rparr>"
      "\<lparr>PauliGroupElement.phase = - 1, sigma = Y\<rparr>" 3 1]
  have a: "group_times PauliGroupElement_Y PauliGroupElement_X
     = group_negated (group_times PauliGroupElement_X PauliGroupElement_Y)"
    using t by (simp add: PauliGroupElement_X_def PauliGroupElement_Y_def)
  have b: "PauliGroupElement_mul_group \<lparr>PauliGroupElement.phase = \<i>, sigma = Z\<rparr>
        \<lparr>PauliGroupElement.phase = - 1, sigma = Y\<rparr>
       = Inr \<lparr>PauliGroupElement.phase = - 1, sigma = X\<rparr>"
    using t by (simp add: valid_group_def table_values)
  have c: "dict_get TIMES_TABLE (3, 1) = Inr (\<i>, 2)"
    using t by (simp add: levi_civita_def)
  show ?thesis using a b c by simp
qed

section \<open>Facts about the normalization\<close>

lemma traverse_Inr:
  "(\<And>x. x \<in> set xs \<Longrightarrow> f x = Inr (g x)) \<Longrightarrow> traverse f xs = Inr (map g xs)"
  by (induction xs) simp_all

lemma traverse_length: "traverse f xs = Inr ys \<Longrightarrow> length ys = length xs"
proof (induction xs arbitrary: ys)
  case Nil
  then show ?case by simp
next
  case (Cons x xs)
  then show ?case
    by (cases "f x"; cases "traverse f xs") auto
qed

lemma valid_group_nonzero: "valid_group g \<Longrightarrow> PauliGroupElement.phase g \<noteq> 0"
  by (auto simp add: valid_group_def)

lemma dephase_valid:
  assumes "valid_group g"
  shows "sum_bind (py_truediv 1 (PauliGroupElement.phase g)) (PauliGroupElement_mul_scalar g)
           = Inr (dephased g)"
  using valid_group_nonzero[OF assms]
  by (simp add: py_truediv_def PauliGroupElement_mul_scalar_def PauliGroupElement_init_def
      dephased_def)

lemma factor_phase_valid:
  assumes "valid_tensor t"
  shows "factor_phase t =
           Inr \<lparr>PauliTensor.phase = overall_phase t, tensor = map dephased (tensor t)\<rparr>"
proof -
  have "traverse (\<lambda>factor. sum_bind (py_truediv 1 (PauliGroupElement.phase factor))
             (PauliGroupElement_mul_scalar factor)) (tensor t) = Inr (map dephased (tensor t))"
    using assms by (intro traverse_Inr dephase_valid) (simp add: valid_tensor_def list_all_iff)
  then show ?thesis by (simp add: factor_phase_def)
qed

lemma valid_dephased: "valid_group (dephased g)"
  by (simp add: dephased_def valid_group_def)

lemma dephased_simps [simp]:
  "PauliGroupElement.phase (dephased g) = 1" "sigma (dephased g) = sigma g"
  "dephased (dephased g) = dephased g"
  by (simp_all add: dephased_def)

lemma prod_list_ones: "prod_list (map (\<lambda>x. 1::complex) xs) = 1"
  by (induction xs) simp_all

lemma overall_phase_dephased:
  "overall_phase \<lparr>PauliTensor.phase = p, tensor = map dephased fs\<rparr> = p"
  by (simp add: overall_phase_def o_def prod_list_ones)

lemma valid_tensor_dephased: "valid_tensor \<lparr>PauliTensor.phase = p, tensor = map dephased fs\<rparr>"
  by (simp add: valid_tensor_def list_all_iff valid_dephased)


section \<open>Normalization of a tensor\<close>

text \<open>
  Claim C10. For every tensor \<open>t\<close>, \<^verbatim>\<open>factor_phase\<close> is idempotent and round-trip safe:
  \<open>t.factor_phase().factor_phase()\<close> equals \<open>t.factor_phase()\<close> (as values and under the
  tensor's \<^verbatim>\<open>__eq__\<close>), and \<open>t.factor_phase()\<close> equals the tensor whose tensor-level phase
  is \<open>t.overall_phase\<close> and whose factors are those of \<open>t\<close> with their local phases
  removed, each factor phase being exactly 1. A tensor holds group elements, which
  satisfy the invariant of their constructor.
\<close>

theorem factor_phase_idempotent:
  "valid_tensor t \<longrightarrow>
     factor_phase t =
       Inr \<lparr>PauliTensor.phase = overall_phase t, tensor = map dephased (tensor t)\<rparr>
     \<and> sum_bind (factor_phase t) factor_phase = factor_phase t
     \<and> sum_bind (factor_phase t) (\<lambda>once. sum_bind (factor_phase once) (\<lambda>twice.
          PauliTensor_eq twice once)) = Inr True
     \<and> sum_bind (factor_phase t) (\<lambda>once.
          PauliTensor_eq once
            \<lparr>PauliTensor.phase = overall_phase t, tensor = map dephased (tensor t)\<rparr>) = Inr True"
proof
  assume v: "valid_tensor t"
  let ?n = "\<lparr>PauliTensor.phase = overall_phase t, tensor = map dephased (tensor t)\<rparr>"
  have a: "factor_phase t = Inr ?n" using v by (rule factor_phase_valid)
  have vn: "valid_tensor ?n" by (rule valid_tensor_dephased)
  have b: "factor_phase ?n = Inr ?n"
    using factor_phase_valid[OF vn] by (simp add: overall_phase_dephased o_def)
  have c: "PauliTensor_eq ?n ?n = Inr True" by (simp add: PauliTensor_eq_def b)
  show "factor_phase t = Inr ?n
     \<and> sum_bind (factor_phase t) factor_phase = factor_phase t
     \<and> sum_bind (factor_phase t) (\<lambda>once. sum_bind (factor_phase once) (\<lambda>twice.
          PauliTensor_eq twice once)) = Inr True
     \<and> sum_bind (factor_phase t) (\<lambda>once. PauliTensor_eq once ?n) = Inr True"
    by (simp add: a b c)
qed

theorem factor_phase_idempotent_witness:
  "valid_tensor \<lparr>PauliTensor.phase = \<i>,
       tensor = [\<lparr>PauliGroupElement.phase = \<i>, sigma = X\<rparr>,
                 \<lparr>PauliGroupElement.phase = - 1, sigma = Z\<rparr>]\<rparr>
   \<and> factor_phase \<lparr>PauliTensor.phase = \<i>,
       tensor = [\<lparr>PauliGroupElement.phase = \<i>, sigma = X\<rparr>,
                 \<lparr>PauliGroupElement.phase = - 1, sigma = Z\<rparr>]\<rparr>
     = Inr \<lparr>PauliTensor.phase = 1,
            tensor = [\<lparr>PauliGroupElement.phase = 1, sigma = X\<rparr>,
                      \<lparr>PauliGroupElement.phase = 1, sigma = Z\<rparr>]\<rparr>
   \<and> sum_bind (factor_phase \<lparr>PauliTensor.phase = \<i>,
       tensor = [\<lparr>PauliGroupElement.phase = \<i>, sigma = X\<rparr>,
                 \<lparr>PauliGroupElement.phase = - 1, sigma = Z\<rparr>]\<rparr>) factor_phase
     = Inr \<lparr>PauliTensor.phase = 1,
            tensor = [\<lparr>PauliGroupElement.phase = 1, sigma = X\<rparr>,
                      \<lparr>PauliGroupElement.phase = 1, sigma = Z\<rparr>]\<rparr>"
proof -
  let ?t = "\<lparr>PauliTensor.phase = \<i>,
       tensor = [\<lparr>PauliGroupElement.phase = \<i>, sigma = X\<rparr>,
                 \<lparr>PauliGroupElement.phase = - 1, sigma = Z\<rparr>]\<rparr>"
  have v: "valid_tensor ?t" by (simp add: valid_tensor_def valid_group_def)
  have n: "\<lparr>PauliTensor.phase = overall_phase ?t, tensor = map dephased (tensor ?t)\<rparr>
     = \<lparr>PauliTensor.phase = 1,
            tensor = [\<lparr>PauliGroupElement.phase = 1, sigma = X\<rparr>,
                      \<lparr>PauliGroupElement.phase = 1, sigma = Z\<rparr>]\<rparr>"
    by (simp add: overall_phase_def dephased_def)
  from factor_phase_idempotent[of ?t] v
  have "factor_phase ?t =
       Inr \<lparr>PauliTensor.phase = overall_phase ?t, tensor = map dephased (tensor ?t)\<rparr>"
    and "sum_bind (factor_phase ?t) factor_phase = factor_phase ?t"
    by blast+
  with v n show ?thesis by simp
qed

section \<open>Facts about the product of two tensors\<close>

lemma table_phase_valid4: "table_phase s1 s2 \<in> {1, - 1, \<i>, - \<i>}"
  using table_phase_valid[of s1 s2] by auto

lemma mul_group_dephased:
  "PauliGroupElement_mul_group (dephased f) (dephased g) =
     Inr \<lparr>PauliGroupElement.phase = table_phase (sigma f) (sigma g),
          sigma = table_label (sigma f) (sigma g)\<rparr>"
  by (simp add: PauliGroupElement_mul_group_valid valid_dephased)

lemma traverse_map_Inr:
  "(\<And>x. x \<in> set xs \<Longrightarrow> f (h x) = Inr (g x)) \<Longrightarrow> traverse f (map h xs) = Inr (map g xs)"
  by (induction xs) simp_all

lemma traverse_mul_group_dephased:
  "traverse (\<lambda>(s_factor, o_factor). PauliGroupElement_mul_group s_factor o_factor)
     (zip (map dephased fs) (map dephased gs)) =
   Inr (map (\<lambda>(f, g). \<lparr>PauliGroupElement.phase = table_phase (sigma f) (sigma g),
                          sigma = table_label (sigma f) (sigma g)\<rparr>) (zip fs gs))"
  unfolding zip_map_map
  by (rule traverse_map_Inr) (simp add: split_def mul_group_dephased)

lemma PauliTensor_mul_tensor_valid:
  assumes "valid_tensor a" "valid_tensor b" "dim a = dim b"
  shows "PauliTensor_mul_tensor a b =
     Inr \<lparr>PauliTensor.phase =
            overall_phase a * overall_phase b * prod_list (table_phases (tensor a) (tensor b)),
          tensor = table_labels (tensor a) (tensor b)\<rparr>"
proof -
  let ?raw = "map (\<lambda>(f, g). \<lparr>PauliGroupElement.phase = table_phase (sigma f) (sigma g),
                          sigma = table_label (sigma f) (sigma g)\<rparr>) (zip (tensor a) (tensor b))"
  let ?product = "\<lparr>PauliTensor.phase = 1, tensor = ?raw\<rparr>"
  have vraw: "valid_tensor ?product"
    by (simp add: valid_tensor_def list_all_iff valid_group_def split_def table_phase_valid4
        del: insert_iff)
  have ph: "map PauliGroupElement.phase ?raw = table_phases (tensor a) (tensor b)"
    by (simp add: table_phases_def o_def split_def)
  have lb: "map dephased ?raw = table_labels (tensor a) (tensor b)"
    by (simp add: table_labels_def dephased_def o_def split_def)
  have fp: "factor_phase ?product =
      Inr \<lparr>PauliTensor.phase = prod_list (table_phases (tensor a) (tensor b)),
           tensor = table_labels (tensor a) (tensor b)\<rparr>"
    using factor_phase_valid[OF vraw] ph lb by (simp add: overall_phase_def)
  show ?thesis
    using assms(3)
    by (simp add: PauliTensor_mul_tensor_def factor_phase_valid[OF assms(1)]
        factor_phase_valid[OF assms(2)] traverse_mul_group_dephased fp
        PauliTensor_mul_scalar_def mult_ac)
qed

lemma from_str_eval:
  "PauliTensor_from_str [] = Inr \<lparr>PauliTensor.phase = 1, tensor = []\<rparr>"
  "PauliTensor_from_str ''X'' = Inr \<lparr>PauliTensor.phase = 1, tensor = [\<lparr>PauliGroupElement.phase = 1, sigma = X\<rparr>]\<rparr>"
  "PauliTensor_from_str ''Y'' = Inr \<lparr>PauliTensor.phase = 1, tensor = [\<lparr>PauliGroupElement.phase = 1, sigma = Y\<rparr>]\<rparr>"
  "PauliTensor_from_str ''XXX'' = Inr \<lparr>PauliTensor.phase = 1, tensor =
     [\<lparr>PauliGroupElement.phase = 1, sigma = X\<rparr>, \<lparr>PauliGroupElement.phase = 1, sigma = X\<rparr>,
      \<lparr>PauliGroupElement.phase = 1, sigma = X\<rparr>]\<rparr>"
  "PauliTensor_from_str ''XYZ'' = Inr \<lparr>PauliTensor.phase = 1, tensor =
     [\<lparr>PauliGroupElement.phase = 1, sigma = X\<rparr>, \<lparr>PauliGroupElement.phase = 1, sigma = Y\<rparr>,
      \<lparr>PauliGroupElement.phase = 1, sigma = Z\<rparr>]\<rparr>"
  "PauliTensor_from_str ''III'' = Inr \<lparr>PauliTensor.phase = 1, tensor =
     [\<lparr>PauliGroupElement.phase = 1, sigma = I\<rparr>, \<lparr>PauliGroupElement.phase = 1, sigma = I\<rparr>,
      \<lparr>PauliGroupElement.phase = 1, sigma = I\<rparr>]\<rparr>"
  "PauliTensor_from_str ''IZY'' = Inr \<lparr>PauliTensor.phase = 1, tensor =
     [\<lparr>PauliGroupElement.phase = 1, sigma = I\<rparr>, \<lparr>PauliGroupElement.phase = 1, sigma = Z\<rparr>,
      \<lparr>PauliGroupElement.phase = 1, sigma = Y\<rparr>]\<rparr>"
  by (simp_all add: PauliTensor_from_str_def SIGMA_getitem_def init_unit)

lemma units_valid [simp]:
  "valid_tensor \<lparr>PauliTensor.phase = p, tensor = []\<rparr>"
  "valid_tensor \<lparr>PauliTensor.phase = p, tensor = \<lparr>PauliGroupElement.phase = 1, sigma = s\<rparr> # fs\<rparr>
     = valid_tensor \<lparr>PauliTensor.phase = p, tensor = fs\<rparr>"
  by (simp_all add: valid_tensor_def valid_group_def)

lemma mul_examples:
  "tensor_times (PauliTensor_from_str ''XXX'') (PauliTensor_from_str ''XXX'') = PauliTensor_from_str ''III''"
  "tensor_times (PauliTensor_from_str ''XYZ'') (PauliTensor_from_str ''XYZ'') = PauliTensor_from_str ''III''"
  "tensor_times (PauliTensor_from_str ''XXX'') (PauliTensor_from_str ''XYZ'') = PauliTensor_from_str ''IZY''"
  by (simp_all add: tensor_times_def from_str_eval PauliTensor_mul_tensor_valid dim_def
      overall_phase_def table_phases_def table_labels_def table_values)

lemma sum_bind_eq_Inr: "sum_bind m f = Inr r \<longleftrightarrow> (\<exists>x. m = Inr x \<and> f x = Inr r)"
  by (cases m) simp_all

lemma factor_phase_dim: "factor_phase a = Inr r \<Longrightarrow> dim r = dim a"
  by (auto simp add: factor_phase_def sum_bind_eq_Inr dim_def dest: traverse_length)

lemma PauliTensor_mul_tensor_dim:
  assumes "PauliTensor_mul_tensor a b = Inr r"
  shows "dim r = dim a" and "dim r = dim b"
proof -
  from assms have eq: "dim a = dim b"
    by (simp add: PauliTensor_mul_tensor_def split: if_splits)
  from assms eq obtain s o' factors product where
    s: "factor_phase a = Inr s" and o': "factor_phase b = Inr o'"
    and f: "traverse (\<lambda>(s_factor, o_factor). PauliGroupElement_mul_group s_factor o_factor)
               (zip (tensor s) (tensor o')) = Inr factors"
    and p: "factor_phase \<lparr>PauliTensor.phase = 1, tensor = factors\<rparr> = Inr product"
    and r: "r = PauliTensor_mul_scalar product
                  (PauliTensor.phase s * PauliTensor.phase o')"
    by (auto simp add: PauliTensor_mul_tensor_def sum_bind_eq_Inr Let_def)
  have "length factors = min (dim s) (dim o')"
    using traverse_length[OF f] by (simp add: dim_def)
  moreover have "dim s = dim a" "dim o' = dim b"
    using s o' by (simp_all add: factor_phase_dim)
  moreover have "dim product = length factors"
    using factor_phase_dim[OF p] by (simp add: dim_def)
  ultimately have "dim r = dim a"
    using eq r by (simp add: dim_def PauliTensor_mul_scalar_def)
  then show "dim r = dim a" and "dim r = dim b" using eq by simp_all
qed

lemma PauliTensor_from_str_dim: "PauliTensor_from_str s = Inr t \<Longrightarrow> dim t = length s"
  by (auto simp add: PauliTensor_from_str_def sum_bind_eq_Inr dim_def dest: traverse_length)


section \<open>The length of a tensor's factor sequence\<close>

text \<open>
  Claim C5 says that every tensor obtained through the public interface has at least one
  factor. \<^verbatim>\<open>from_str\<close> builds one factor for each character, so the empty string gives
  a tensor with no factor.
\<close>

theorem from_str_empty_counterexample:
  "PauliTensor_from_str [] = Inr \<lparr>PauliTensor.phase = 1, tensor = []\<rparr>
   \<and> dim \<lparr>PauliTensor.phase = 1, tensor = []\<rparr> = 0"
  by (simp add: from_str_eval dim_def)

text \<open>
  Claim C5, amended. \<^verbatim>\<open>from_str(s)\<close>, when it returns, returns a tensor with exactly
  \<open>len(s)\<close> factors (at least one exactly when \<open>s\<close> is not empty); the constructor with
  defaults returns a tensor with one factor; the product of two tensors, when it returns,
  has as many factors as each operand; the product with a scalar, the negation and the
  normalization of a tensor have as many factors as the tensor.
\<close>

theorem tensor_dim_preserved:
  "(PauliTensor_from_str s = Inr t \<longrightarrow> dim t = length s \<and> (1 \<le> dim t \<longleftrightarrow> s \<noteq> []))
   \<and> PauliTensor_default =
        Inr \<lparr>PauliTensor.phase = 1, tensor = [\<lparr>PauliGroupElement.phase = 1, sigma = I\<rparr>]\<rparr>
   \<and> (PauliTensor_default = Inr t \<longrightarrow> dim t = 1)
   \<and> (PauliTensor_mul_tensor a b = Inr r \<longrightarrow> dim r = dim a \<and> dim r = dim b)
   \<and> dim (PauliTensor_mul_scalar a z) = dim a
   \<and> dim (PauliTensor_neg a) = dim a
   \<and> (factor_phase a = Inr r \<longrightarrow> dim r = dim a)"
proof -
  have 1: "PauliTensor_from_str s = Inr t \<longrightarrow> dim t = length s \<and> (1 \<le> dim t \<longleftrightarrow> s \<noteq> [])"
    by (auto simp add: PauliTensor_from_str_dim Suc_le_eq)
  have 2: "PauliTensor_default =
        Inr \<lparr>PauliTensor.phase = 1, tensor = [\<lparr>PauliGroupElement.phase = 1, sigma = I\<rparr>]\<rparr>"
    by (simp add: PauliTensor_default_def init_unit)
  have 3: "PauliTensor_default = Inr t \<longrightarrow> dim t = 1"
    by (auto simp add: 2 dim_def)
  have 4: "PauliTensor_mul_tensor a b = Inr r \<longrightarrow> dim r = dim a \<and> dim r = dim b"
    using PauliTensor_mul_tensor_dim[of a b r] by blast
  have 5: "dim (PauliTensor_mul_scalar a z) = dim a" "dim (PauliTensor_neg a) = dim a"
    by (simp_all add: PauliTensor_neg_def PauliTensor_mul_scalar_def dim_def)
  have 6: "factor_phase a = Inr r \<longrightarrow> dim r = dim a"
    using factor_phase_dim[of a r] by blast
  show ?thesis using 1 2 3 4 5 6 by blast
qed

theorem tensor_dim_preserved_witness:
  "PauliTensor_from_str ''XYZ'' =
     Inr \<lparr>PauliTensor.phase = 1, tensor =
       [\<lparr>PauliGroupElement.phase = 1, sigma = X\<rparr>, \<lparr>PauliGroupElement.phase = 1, sigma = Y\<rparr>,
        \<lparr>PauliGroupElement.phase = 1, sigma = Z\<rparr>]\<rparr>
   \<and> dim \<lparr>PauliTensor.phase = 1, tensor =
       [\<lparr>PauliGroupElement.phase = 1, sigma = X\<rparr>, \<lparr>PauliGroupElement.phase = 1, sigma = Y\<rparr>,
        \<lparr>PauliGroupElement.phase = 1, sigma = Z\<rparr>]\<rparr> = length ''XYZ''"
proof -
  let ?t = "\<lparr>PauliTensor.phase = 1, tensor =
       [\<lparr>PauliGroupElement.phase = 1, sigma = X\<rparr>, \<lparr>PauliGroupElement.phase = 1, sigma = Y\<rparr>,
        \<lparr>PauliGroupElement.phase = 1, sigma = Z\<rparr>]\<rparr>"
  have e: "PauliTensor_from_str ''XYZ'' = Inr ?t" by (simp add: from_str_eval)
  from tensor_dim_preserved[of "''XYZ''" ?t] e have "dim ?t = length ''XYZ''" by blast
  with e show ?thesis by simp
qed


section \<open>Scalar multiples of a group element\<close>

text \<open>
  Claim C2 says that \<open>s * g\<close> and \<open>g * s\<close> succeed for every scalar \<open>s\<close>, also one that is
  not a fourth root of unity, without validating the phase again. The source builds the
  result with \<^verbatim>\<open>PauliGroupElement(self.phase * other, self.sigma)\<close>, and the constructor
  runs \<^verbatim>\<open>__post_init__\<close>: with \<open>s = 2\<close> both products raise.
\<close>

theorem group_scalar_mul_counterexample:
  "PauliGroupElement_X = Inr \<lparr>PauliGroupElement.phase = 1, sigma = X\<rparr>
   \<and> py_mul (Scalar 2) (Group \<lparr>PauliGroupElement.phase = 1, sigma = X\<rparr>) = Inl InvalidPhaseError
   \<and> py_mul (Group \<lparr>PauliGroupElement.phase = 1, sigma = X\<rparr>) (Scalar 2) = Inl InvalidPhaseError"
  by (simp add: PauliGroupElement_X_def init_unit py_mul_def PauliGroupElement_mul_scalar_def
      PauliGroupElement_init_def complex_eq_iff)

text \<open>
  Claim C2, amended. For every group element \<open>g\<close> and every scalar \<open>s\<close>, the products
  \<open>s * g\<close> and \<open>g * s\<close> are the same; they return the group element with phase
  \<open>g.phase * s\<close> and the label of \<open>g\<close> when \<open>g.phase * s\<close> is a fourth root of unity, and fail
  with the invalid-phase error otherwise.
\<close>

theorem group_scalar_mul_validated:
  "py_mul (Scalar s) (Group g) = py_mul (Group g) (Scalar s)
   \<and> py_mul (Group g) (Scalar s) =
       (if PauliGroupElement.phase g * s \<in> {1, - 1, \<i>, - \<i>}
        then Inr (Group \<lparr>PauliGroupElement.phase = PauliGroupElement.phase g * s,
                         sigma = sigma g\<rparr>)
        else Inl InvalidPhaseError)"
  by (simp add: py_mul_def PauliGroupElement_mul_scalar_def PauliGroupElement_init_def
      del: insert_iff)

theorem group_scalar_mul_validated_witness:
  "py_mul (Scalar \<i>) (Group \<lparr>PauliGroupElement.phase = - 1, sigma = Y\<rparr>)
     = Inr (Group \<lparr>PauliGroupElement.phase = - \<i>, sigma = Y\<rparr>)
   \<and> py_mul (Group \<lparr>PauliGroupElement.phase = - 1, sigma = Y\<rparr>) (Scalar 3)
     = Inl InvalidPhaseError"
  using group_scalar_mul_validated[of \<i> "\<lparr>PauliGroupElement.phase = - 1, sigma = Y\<rparr>"]
    group_scalar_mul_validated[of 3 "\<lparr>PauliGroupElement.phase = - 1, sigma = Y\<rparr>"]
  by (simp add: complex_eq_iff)

section \<open>Facts about the dimensions in a product\<close>

lemma PauliTensor_mul_tensor_mismatch:
  "dim a \<noteq> dim b \<Longrightarrow> PauliTensor_mul_tensor a b = Inl DimensionMismatchError"
  by (simp add: PauliTensor_mul_tensor_def)

lemma PauliTensor_mul_tensor_iff:
  assumes "valid_tensor a" "valid_tensor b"
  shows "PauliTensor_mul_tensor a b = Inl DimensionMismatchError \<longleftrightarrow> dim a \<noteq> dim b"
proof (cases "dim a = dim b")
  case True
  then show ?thesis using PauliTensor_mul_tensor_valid[OF assms True] by simp
next
  case False
  then show ?thesis by (simp add: PauliTensor_mul_tensor_mismatch)
qed

lemma product_loop_agree:
  assumes "list_all (\<lambda>((s, sc), (ot, oc)). valid_tensor s \<and> valid_tensor ot) pairs"
    and "list_all (\<lambda>((s, sc), (ot, oc)). dim s = dim ot) pairs"
  shows "\<exists>d'. product_loop pairs d = Inr d'"
  using assms
proof (induction pairs arbitrary: d)
  case Nil
  then show ?case by simp
next
  case (Cons p pairs)
  obtain s sc ot oc where p: "p = ((s, sc), (ot, oc))" by (cases p) auto
  from Cons.prems p have "valid_tensor s" "valid_tensor ot" "dim s = dim ot" by simp_all
  then obtain key where "PauliTensor_mul_tensor s ot = Inr key"
    using PauliTensor_mul_tensor_valid by blast
  moreover from Cons.prems have
    "list_all (\<lambda>((s, sc), (ot, oc)). valid_tensor s \<and> valid_tensor ot) pairs"
    "list_all (\<lambda>((s, sc), (ot, oc)). dim s = dim ot) pairs" by simp_all
  ultimately show ?case using Cons.IH p by simp
qed

lemma product_loop_disagree:
  assumes "list_all (\<lambda>((s, sc), (ot, oc)). valid_tensor s \<and> valid_tensor ot) pairs"
    and "\<not> list_all (\<lambda>((s, sc), (ot, oc)). dim s = dim ot) pairs"
  shows "product_loop pairs d = Inl DimensionMismatchError"
  using assms
proof (induction pairs arbitrary: d)
  case Nil
  then show ?case by simp
next
  case (Cons p pairs)
  obtain s sc ot oc where p: "p = ((s, sc), (ot, oc))" by (cases p) auto
  show ?case
  proof (cases "dim s = dim ot")
    case True
    from Cons.prems p have "valid_tensor s" "valid_tensor ot" by simp_all
    then obtain key where k: "PauliTensor_mul_tensor s ot = Inr key"
      using PauliTensor_mul_tensor_valid True by blast
    from Cons.prems p True have
      "list_all (\<lambda>((s, sc), (ot, oc)). valid_tensor s \<and> valid_tensor ot) pairs"
      "\<not> list_all (\<lambda>((s, sc), (ot, oc)). dim s = dim ot) pairs" by simp_all
    then show ?thesis using Cons.IH p k by simp
  next
    case False
    then show ?thesis by (simp add: p PauliTensor_mul_tensor_mismatch)
  qed
qed

lemma valid_product:
  "valid_algebra a \<Longrightarrow> valid_algebra b \<Longrightarrow>
     list_all (\<lambda>((s, sc), (ot, oc)). valid_tensor s \<and> valid_tensor ot)
       (List.product (coeffs a) (coeffs b))"
  by (auto simp add: valid_algebra_def list_all_iff)

lemma PauliAlgebraElement_mul_algebra_iff:
  assumes "valid_algebra a" "valid_algebra b"
  shows "PauliAlgebraElement_mul_algebra a b = Inl DimensionMismatchError \<longleftrightarrow> \<not> dims_agree a b"
    and "dims_agree a b \<Longrightarrow> \<exists>r. PauliAlgebraElement_mul_algebra a b = Inr r"
proof -
  note v = valid_product[OF assms]
  show "dims_agree a b \<Longrightarrow> \<exists>r. PauliAlgebraElement_mul_algebra a b = Inr r"
    using product_loop_agree[OF v, of "[]"]
    by (auto simp add: PauliAlgebraElement_mul_algebra_def dims_agree_def)
  then show "PauliAlgebraElement_mul_algebra a b = Inl DimensionMismatchError
      \<longleftrightarrow> \<not> dims_agree a b"
    using product_loop_disagree[OF v, of "[]"]
    by (auto simp add: PauliAlgebraElement_mul_algebra_def dims_agree_def)
qed

lemma PauliTensor_eq_dims:
  assumes "valid_tensor a" "valid_tensor b" "dim a \<noteq> dim b"
  shows "PauliTensor_eq a b = Inr False"
proof -
  have "map dephased (tensor a) \<noteq> map dephased (tensor b)"
    using assms(3) by (metis dim_def length_map)
  then show ?thesis
    by (simp add: PauliTensor_eq_def factor_phase_valid assms)
qed

lemma dict_of_single [simp]: "dict_of [(k, v)] = [(k, v)]"
  by (simp add: dict_of_def)

lemma valid_single: "valid_tensor t \<Longrightarrow> valid_algebra \<lparr>coeffs = [(t, c)]\<rparr>"
  by (simp add: valid_algebra_def)


section \<open>Dimension mismatch\<close>

text \<open>
  Claim C9. Multiplying two tensors fails with the dimension-mismatch error if and only
  if their factor sequences differ in length, in both call directions and through the
  operator \<^verbatim>\<open>*\<close>; the product of two algebra elements fails with that error if and only
  if a term tensor of the left operand and a term tensor of the right operand differ in
  length, and so does the product of an algebra element and a bare tensor on either side.
  Equality of two tensors of different lengths returns \<^verbatim>\<open>False\<close> and the sum of two
  algebra elements always returns: no other operation compares dimensions.
\<close>

theorem dimension_mismatch_iff:
  "(valid_tensor a \<and> valid_tensor b \<longrightarrow>
      (PauliTensor_mul_tensor a b = Inl DimensionMismatchError \<longleftrightarrow> dim a \<noteq> dim b)
      \<and> (PauliTensor_mul_tensor b a = Inl DimensionMismatchError \<longleftrightarrow> dim a \<noteq> dim b)
      \<and> (dim a = dim b \<longrightarrow> (\<exists>r. PauliTensor_mul_tensor a b = Inr r))
      \<and> py_mul (Tensor a) (Tensor b) = map_sum id Tensor (PauliTensor_mul_tensor a b)
      \<and> (dim a \<noteq> dim b \<longrightarrow> PauliTensor_eq a b = Inr False))
   \<and> (valid_algebra A \<and> valid_algebra B \<longrightarrow>
      (PauliAlgebraElement_mul_algebra A B = Inl DimensionMismatchError \<longleftrightarrow> \<not> dims_agree A B)
      \<and> (dims_agree A B \<longrightarrow> (\<exists>r. PauliAlgebraElement_mul_algebra A B = Inr r))
      \<and> py_mul (Algebra A) (Algebra B) =
          map_sum id Algebra (PauliAlgebraElement_mul_algebra A B)
      \<and> py_add (Algebra A) (Algebra B) = Inr (Algebra (PauliAlgebraElement_add A B)))
   \<and> (valid_algebra A \<and> valid_tensor a \<longrightarrow>
      (py_mul (Algebra A) (Tensor a) = Inl DimensionMismatchError
         \<longleftrightarrow> \<not> dims_agree A \<lparr>coeffs = [(a, 1)]\<rparr>)
      \<and> (py_mul (Tensor a) (Algebra A) = Inl DimensionMismatchError
         \<longleftrightarrow> \<not> dims_agree A \<lparr>coeffs = [(a, 1)]\<rparr>))"
proof -
  have t: "valid_tensor a \<and> valid_tensor b \<longrightarrow>
      (PauliTensor_mul_tensor a b = Inl DimensionMismatchError \<longleftrightarrow> dim a \<noteq> dim b)
      \<and> (PauliTensor_mul_tensor b a = Inl DimensionMismatchError \<longleftrightarrow> dim a \<noteq> dim b)
      \<and> (dim a = dim b \<longrightarrow> (\<exists>r. PauliTensor_mul_tensor a b = Inr r))
      \<and> py_mul (Tensor a) (Tensor b) = map_sum id Tensor (PauliTensor_mul_tensor a b)
      \<and> (dim a \<noteq> dim b \<longrightarrow> PauliTensor_eq a b = Inr False)"
    using PauliTensor_mul_tensor_iff[of a b] PauliTensor_mul_tensor_iff[of b a]
      PauliTensor_mul_tensor_valid[of a b] PauliTensor_eq_dims[of a b]
    by (auto simp add: py_mul_def)
  have g: "valid_algebra A \<and> valid_algebra B \<longrightarrow>
      (PauliAlgebraElement_mul_algebra A B = Inl DimensionMismatchError \<longleftrightarrow> \<not> dims_agree A B)
      \<and> (dims_agree A B \<longrightarrow> (\<exists>r. PauliAlgebraElement_mul_algebra A B = Inr r))
      \<and> py_mul (Algebra A) (Algebra B) =
          map_sum id Algebra (PauliAlgebraElement_mul_algebra A B)
      \<and> py_add (Algebra A) (Algebra B) = Inr (Algebra (PauliAlgebraElement_add A B))"
    using PauliAlgebraElement_mul_algebra_iff[of A B] by (auto simp add: py_mul_def)
  have m: "valid_algebra A \<and> valid_tensor a \<longrightarrow>
      (py_mul (Algebra A) (Tensor a) = Inl DimensionMismatchError
         \<longleftrightarrow> \<not> dims_agree A \<lparr>coeffs = [(a, 1)]\<rparr>)
      \<and> (py_mul (Tensor a) (Algebra A) = Inl DimensionMismatchError
         \<longleftrightarrow> \<not> dims_agree A \<lparr>coeffs = [(a, 1)]\<rparr>)"
  proof
    assume v: "valid_algebra A \<and> valid_tensor a"
    then have s: "valid_algebra \<lparr>coeffs = [(a, 1)]\<rparr>" by (simp add: valid_single)
    have e: "PauliAlgebraElement_mul_algebra A \<lparr>coeffs = [(a, 1)]\<rparr> = Inl DimensionMismatchError
        \<longleftrightarrow> \<not> dims_agree A \<lparr>coeffs = [(a, 1)]\<rparr>"
      using v s by (simp add: PauliAlgebraElement_mul_algebra_iff(1))
    have i: "map_sum id Algebra x = Inl DimensionMismatchError \<longleftrightarrow> x = Inl DimensionMismatchError"
      for x :: "error + PauliAlgebraElement" by (cases x) simp_all
    show "(py_mul (Algebra A) (Tensor a) = Inl DimensionMismatchError
         \<longleftrightarrow> \<not> dims_agree A \<lparr>coeffs = [(a, 1)]\<rparr>)
      \<and> (py_mul (Tensor a) (Algebra A) = Inl DimensionMismatchError
         \<longleftrightarrow> \<not> dims_agree A \<lparr>coeffs = [(a, 1)]\<rparr>)"
      using e by (simp add: py_mul_def PauliAlgebraElement_mul_tensor_def i)
  qed
  show ?thesis using t g m by blast
qed

theorem dimension_mismatch_iff_witness:
  "valid_tensor \<lparr>PauliTensor.phase = 1, tensor =
       [\<lparr>PauliGroupElement.phase = 1, sigma = X\<rparr>, \<lparr>PauliGroupElement.phase = 1, sigma = Y\<rparr>]\<rparr>
   \<and> valid_tensor \<lparr>PauliTensor.phase = 1, tensor =
       [\<lparr>PauliGroupElement.phase = 1, sigma = X\<rparr>, \<lparr>PauliGroupElement.phase = 1, sigma = Y\<rparr>,
        \<lparr>PauliGroupElement.phase = 1, sigma = Z\<rparr>]\<rparr>
   \<and> PauliTensor_mul_tensor
       \<lparr>PauliTensor.phase = 1, tensor =
         [\<lparr>PauliGroupElement.phase = 1, sigma = X\<rparr>, \<lparr>PauliGroupElement.phase = 1, sigma = Y\<rparr>]\<rparr>
       \<lparr>PauliTensor.phase = 1, tensor =
         [\<lparr>PauliGroupElement.phase = 1, sigma = X\<rparr>, \<lparr>PauliGroupElement.phase = 1, sigma = Y\<rparr>,
          \<lparr>PauliGroupElement.phase = 1, sigma = Z\<rparr>]\<rparr> = Inl DimensionMismatchError
   \<and> PauliTensor_mul_tensor
       \<lparr>PauliTensor.phase = 1, tensor =
         [\<lparr>PauliGroupElement.phase = 1, sigma = X\<rparr>, \<lparr>PauliGroupElement.phase = 1, sigma = Y\<rparr>,
          \<lparr>PauliGroupElement.phase = 1, sigma = Z\<rparr>]\<rparr>
       \<lparr>PauliTensor.phase = 1, tensor =
         [\<lparr>PauliGroupElement.phase = 1, sigma = X\<rparr>, \<lparr>PauliGroupElement.phase = 1, sigma = Y\<rparr>]\<rparr>
       = Inl DimensionMismatchError
   \<and> py_mul
       (Algebra \<lparr>coeffs = [(\<lparr>PauliTensor.phase = 1, tensor =
         [\<lparr>PauliGroupElement.phase = 1, sigma = X\<rparr>, \<lparr>PauliGroupElement.phase = 1, sigma = Y\<rparr>,
          \<lparr>PauliGroupElement.phase = 1, sigma = Z\<rparr>]\<rparr>, 1)]\<rparr>)
       (Tensor \<lparr>PauliTensor.phase = 1, tensor =
         [\<lparr>PauliGroupElement.phase = 1, sigma = X\<rparr>, \<lparr>PauliGroupElement.phase = 1, sigma = Y\<rparr>]\<rparr>)
       = Inl DimensionMismatchError"
proof -
  let ?a = "\<lparr>PauliTensor.phase = 1, tensor =
       [\<lparr>PauliGroupElement.phase = 1, sigma = X\<rparr>, \<lparr>PauliGroupElement.phase = 1, sigma = Y\<rparr>]\<rparr>"
  let ?b = "\<lparr>PauliTensor.phase = 1, tensor =
       [\<lparr>PauliGroupElement.phase = 1, sigma = X\<rparr>, \<lparr>PauliGroupElement.phase = 1, sigma = Y\<rparr>,
        \<lparr>PauliGroupElement.phase = 1, sigma = Z\<rparr>]\<rparr>"
  let ?A = "\<lparr>coeffs = [(?b, 1)]\<rparr>"
  have va: "valid_tensor ?a" and vb: "valid_tensor ?b" by simp_all
  have vA: "valid_algebra ?A" using vb by (rule valid_single)
  have d: "dim ?a \<noteq> dim ?b" by (simp add: dim_def)
  have n: "\<not> dims_agree ?A \<lparr>coeffs = [(?a, 1)]\<rparr>" by (simp add: dims_agree_def dim_def)
  note t = dimension_mismatch_iff[of ?a ?b ?A ?A]
  from t va vb d have 1: "PauliTensor_mul_tensor ?a ?b = Inl DimensionMismatchError"
    and 2: "PauliTensor_mul_tensor ?b ?a = Inl DimensionMismatchError"
    by blast+
  from t vA va n have 3: "py_mul (Algebra ?A) (Tensor ?a) = Inl DimensionMismatchError"
    by blast
  show ?thesis using va vb 1 2 3 by blast
qed

section \<open>Facts about normalized products\<close>

lemma table_labels_phase_one:
  "list_all (\<lambda>factor. PauliGroupElement.phase factor = 1) (table_labels fs gs)"
  by (simp add: table_labels_def list_all_iff split_def)

lemma tensor_equal_self:
  "valid_tensor t \<Longrightarrow> tensor_equal (Inr t) (Inr t) = Inr True"
  by (simp add: tensor_equal_def PauliTensor_eq_def factor_phase_valid)


section \<open>The product of two tensors\<close>

text \<open>
  Claim C7 says that the product of two tensors of one dimension has as factor sequence
  the positionwise group product of the normalized factor sequences, as tensor-level
  phase the product of the two normalized tensor-level phases, and every factor phase
  equal to 1. The group product of two labels carries a phase of its own (\<open>X * Y = i Z\<close>),
  which the last normalization moves from the factor into the tensor-level phase: for the
  one-factor tensors \<open>X\<close> and \<open>Y\<close> the positionwise product is \<open>[i Z]\<close> and the normalized
  phases are 1 and 1, while the product returned is the tensor with phase \<open>i\<close> and
  factors \<open>[Z]\<close>.
\<close>

theorem tensor_mul_phase_counterexample:
  "PauliTensor_from_str ''X'' =
     Inr \<lparr>PauliTensor.phase = 1, tensor = [\<lparr>PauliGroupElement.phase = 1, sigma = X\<rparr>]\<rparr>
   \<and> PauliTensor_from_str ''Y'' =
     Inr \<lparr>PauliTensor.phase = 1, tensor = [\<lparr>PauliGroupElement.phase = 1, sigma = Y\<rparr>]\<rparr>
   \<and> factor_phase \<lparr>PauliTensor.phase = 1, tensor = [\<lparr>PauliGroupElement.phase = 1, sigma = X\<rparr>]\<rparr>
     = Inr \<lparr>PauliTensor.phase = 1, tensor = [\<lparr>PauliGroupElement.phase = 1, sigma = X\<rparr>]\<rparr>
   \<and> factor_phase \<lparr>PauliTensor.phase = 1, tensor = [\<lparr>PauliGroupElement.phase = 1, sigma = Y\<rparr>]\<rparr>
     = Inr \<lparr>PauliTensor.phase = 1, tensor = [\<lparr>PauliGroupElement.phase = 1, sigma = Y\<rparr>]\<rparr>
   \<and> PauliGroupElement_mul_group \<lparr>PauliGroupElement.phase = 1, sigma = X\<rparr>
        \<lparr>PauliGroupElement.phase = 1, sigma = Y\<rparr>
     = Inr \<lparr>PauliGroupElement.phase = \<i>, sigma = Z\<rparr>
   \<and> PauliTensor_mul_tensor
        \<lparr>PauliTensor.phase = 1, tensor = [\<lparr>PauliGroupElement.phase = 1, sigma = X\<rparr>]\<rparr>
        \<lparr>PauliTensor.phase = 1, tensor = [\<lparr>PauliGroupElement.phase = 1, sigma = Y\<rparr>]\<rparr>
     = Inr \<lparr>PauliTensor.phase = \<i>, tensor = [\<lparr>PauliGroupElement.phase = 1, sigma = Z\<rparr>]\<rparr>
   \<and> \<i> \<noteq> (1::complex) * 1
   \<and> [\<lparr>PauliGroupElement.phase = 1, sigma = Z\<rparr>] \<noteq> [\<lparr>PauliGroupElement.phase = \<i>, sigma = Z\<rparr>]"
  by (simp add: from_str_eval factor_phase_valid overall_phase_def dephased_def
      PauliGroupElement_mul_group_valid valid_unit PauliTensor_mul_tensor_valid dim_def
      table_phases_def table_labels_def table_values complex_eq_iff)

text \<open>
  Claim C7, amended. For every two tensors \<open>a\<close>, \<open>b\<close> with \<open>a.dim == b.dim\<close>, the product
  \<open>a * b\<close> has at each position the label of the group product of the two factors at that
  position, with factor phase 1 at every position, and as tensor-level phase the product
  of the two normalized tensor-level phases (the overall phases of \<open>a\<close> and \<open>b\<close>) times
  the phases of the positionwise group products of the normalized factors. In particular
  \<open>XXX * XXX == III\<close>, \<open>XYZ * XYZ == III\<close> and \<open>XXX * XYZ == IZY\<close> for the tensors built by
  \<^verbatim>\<open>from_str\<close>.
\<close>

theorem tensor_mul_normalized_product:
  "(valid_tensor a \<and> valid_tensor b \<and> dim a = dim b \<longrightarrow>
      sum_bind (factor_phase a) (\<lambda>s_simple. sum_bind (factor_phase b) (\<lambda>o_simple.
        traverse (\<lambda>(s_factor, o_factor). PauliGroupElement_mul_group s_factor o_factor)
          (zip (tensor s_simple) (tensor o_simple))))
        = Inr (map (\<lambda>(f, g). \<lparr>PauliGroupElement.phase = table_phase (sigma f) (sigma g),
                               sigma = table_label (sigma f) (sigma g)\<rparr>)
                 (zip (tensor a) (tensor b)))
      \<and> sum_bind (factor_phase a) (\<lambda>s_simple. sum_bind (factor_phase b) (\<lambda>o_simple.
          Inr (PauliTensor.phase s_simple * PauliTensor.phase o_simple)))
        = Inr (overall_phase a * overall_phase b)
      \<and> PauliTensor_mul_tensor a b =
          Inr \<lparr>PauliTensor.phase =
                 overall_phase a * overall_phase b
                   * prod_list (table_phases (tensor a) (tensor b)),
               tensor = table_labels (tensor a) (tensor b)\<rparr>
      \<and> list_all (\<lambda>factor. PauliGroupElement.phase factor = 1)
          (table_labels (tensor a) (tensor b)))
   \<and> tensor_equal
        (tensor_times (PauliTensor_from_str ''XXX'') (PauliTensor_from_str ''XXX''))
        (PauliTensor_from_str ''III'') = Inr True
   \<and> tensor_equal
        (tensor_times (PauliTensor_from_str ''XYZ'') (PauliTensor_from_str ''XYZ''))
        (PauliTensor_from_str ''III'') = Inr True
   \<and> tensor_equal
        (tensor_times (PauliTensor_from_str ''XXX'') (PauliTensor_from_str ''XYZ''))
        (PauliTensor_from_str ''IZY'') = Inr True"
proof -
  have g: "valid_tensor a \<and> valid_tensor b \<and> dim a = dim b \<longrightarrow>
      sum_bind (factor_phase a) (\<lambda>s_simple. sum_bind (factor_phase b) (\<lambda>o_simple.
        traverse (\<lambda>(s_factor, o_factor). PauliGroupElement_mul_group s_factor o_factor)
          (zip (tensor s_simple) (tensor o_simple))))
        = Inr (map (\<lambda>(f, g). \<lparr>PauliGroupElement.phase = table_phase (sigma f) (sigma g),
                               sigma = table_label (sigma f) (sigma g)\<rparr>)
                 (zip (tensor a) (tensor b)))
      \<and> sum_bind (factor_phase a) (\<lambda>s_simple. sum_bind (factor_phase b) (\<lambda>o_simple.
          Inr (PauliTensor.phase s_simple * PauliTensor.phase o_simple)))
        = Inr (overall_phase a * overall_phase b)
      \<and> PauliTensor_mul_tensor a b =
          Inr \<lparr>PauliTensor.phase =
                 overall_phase a * overall_phase b
                   * prod_list (table_phases (tensor a) (tensor b)),
               tensor = table_labels (tensor a) (tensor b)\<rparr>
      \<and> list_all (\<lambda>factor. PauliGroupElement.phase factor = 1)
          (table_labels (tensor a) (tensor b))"
    by (simp add: factor_phase_valid traverse_mul_group_dephased PauliTensor_mul_tensor_valid
        table_labels_phase_one)
  have e: "tensor_equal
        (tensor_times (PauliTensor_from_str ''XXX'') (PauliTensor_from_str ''XXX''))
        (PauliTensor_from_str ''III'') = Inr True"
     "tensor_equal
        (tensor_times (PauliTensor_from_str ''XYZ'') (PauliTensor_from_str ''XYZ''))
        (PauliTensor_from_str ''III'') = Inr True"
     "tensor_equal
        (tensor_times (PauliTensor_from_str ''XXX'') (PauliTensor_from_str ''XYZ''))
        (PauliTensor_from_str ''IZY'') = Inr True"
    unfolding mul_examples by (simp_all add: from_str_eval tensor_equal_self)
  show ?thesis using g e by blast
qed

theorem tensor_mul_normalized_product_witness:
  "valid_tensor \<lparr>PauliTensor.phase = 2, tensor = [\<lparr>PauliGroupElement.phase = \<i>, sigma = X\<rparr>]\<rparr>
   \<and> valid_tensor \<lparr>PauliTensor.phase = 3, tensor = [\<lparr>PauliGroupElement.phase = - 1, sigma = Y\<rparr>]\<rparr>
   \<and> PauliTensor_mul_tensor
        \<lparr>PauliTensor.phase = 2, tensor = [\<lparr>PauliGroupElement.phase = \<i>, sigma = X\<rparr>]\<rparr>
        \<lparr>PauliTensor.phase = 3, tensor = [\<lparr>PauliGroupElement.phase = - 1, sigma = Y\<rparr>]\<rparr>
     = Inr \<lparr>PauliTensor.phase = 6, tensor = [\<lparr>PauliGroupElement.phase = 1, sigma = Z\<rparr>]\<rparr>"
proof -
  let ?a = "\<lparr>PauliTensor.phase = 2, tensor = [\<lparr>PauliGroupElement.phase = \<i>, sigma = X\<rparr>]\<rparr>"
  let ?b = "\<lparr>PauliTensor.phase = 3, tensor = [\<lparr>PauliGroupElement.phase = - 1, sigma = Y\<rparr>]\<rparr>"
  have v: "valid_tensor ?a" "valid_tensor ?b" "dim ?a = dim ?b"
    by (simp_all add: valid_tensor_def valid_group_def dim_def)
  from tensor_mul_normalized_product[of ?a ?b] v
  have "PauliTensor_mul_tensor ?a ?b =
          Inr \<lparr>PauliTensor.phase =
                 overall_phase ?a * overall_phase ?b
                   * prod_list (table_phases (tensor ?a) (tensor ?b)),
               tensor = table_labels (tensor ?a) (tensor ?b)\<rparr>"
    by blast
  then have "PauliTensor_mul_tensor ?a ?b =
      Inr \<lparr>PauliTensor.phase = 6, tensor = [\<lparr>PauliGroupElement.phase = 1, sigma = Z\<rparr>]\<rparr>"
    by (simp add: overall_phase_def table_phases_def table_labels_def table_values
        complex_eq_iff)
  with v show ?thesis by simp
qed

section \<open>Facts about simplify and the equality of tensors\<close>

lemma simplify_step:
  assumes "valid_tensor t" "overall_phase t \<noteq> 0"
  shows "simplify_loop ((t, c) # items) d =
           simplify_loop items (dict_add_to (simple_key t) (c * overall_phase t) d)"
  using assms
  by (simp add: factor_phase_valid py_truediv_def PauliTensor_mul_scalar_def simple_key_def)

lemma simplify_step_zero:
  assumes "valid_tensor t" "overall_phase t = 0"
  shows "simplify_loop ((t, c) # items) d = Inl ZeroDivisionError"
  using assms by (simp add: factor_phase_valid py_truediv_def)

lemma simplify_loop_nonzero:
  assumes "list_all (\<lambda>(t, c). valid_tensor t) items"
    and "list_all (\<lambda>(t, c). overall_phase t \<noteq> 0) items"
  shows "simplify_loop items d = Inr (simplified_coeffs items d)"
  using assms
proof (induction items arbitrary: d)
  case Nil
  then show ?case by (simp add: simplified_coeffs_def)
next
  case (Cons p items)
  obtain t c where p: "p = (t, c)" by (cases p)
  from Cons.prems p have "valid_tensor t" "overall_phase t \<noteq> 0" by simp_all
  then have "simplify_loop (p # items) d =
      simplify_loop items (dict_add_to (simple_key t) (c * overall_phase t) d)"
    unfolding p by (rule simplify_step)
  also have "\<dots> = Inr (simplified_coeffs items
      (dict_add_to (simple_key t) (c * overall_phase t) d))"
    using Cons.prems by (intro Cons.IH) simp_all
  finally show ?case by (simp add: simplified_coeffs_def p)
qed

lemma simplify_loop_zero:
  assumes "list_all (\<lambda>(t, c). valid_tensor t) items"
    and "\<not> list_all (\<lambda>(t, c). overall_phase t \<noteq> 0) items"
  shows "simplify_loop items d = Inl ZeroDivisionError"
  using assms
proof (induction items arbitrary: d)
  case Nil
  then show ?case by simp
next
  case (Cons p items)
  obtain t c where p: "p = (t, c)" by (cases p)
  from Cons.prems p have v: "valid_tensor t" by simp
  show ?case
  proof (cases "overall_phase t = 0")
    case True
    with v show ?thesis unfolding p by (rule simplify_step_zero)
  next
    case False
    with v have "simplify_loop (p # items) d =
      simplify_loop items (dict_add_to (simple_key t) (c * overall_phase t) d)"
      unfolding p by (rule simplify_step)
    moreover from Cons.prems p False have "list_all (\<lambda>(t, c). valid_tensor t) items"
      "\<not> list_all (\<lambda>(t, c). overall_phase t \<noteq> 0) items" by simp_all
    ultimately show ?thesis using Cons.IH by simp
  qed
qed

lemma simplify_nonzero:
  assumes "valid_algebra a" "nonzero_keys a"
  shows "simplify a = Inr \<lparr>coeffs = simplified_coeffs (coeffs a) []\<rparr>"
  using assms
  by (simp add: simplify_def valid_algebra_def nonzero_keys_def simplify_loop_nonzero)

lemma simplify_zero:
  assumes "valid_algebra a" "\<not> nonzero_keys a"
  shows "simplify a = Inl ZeroDivisionError"
  using assms
  by (simp add: simplify_def valid_algebra_def nonzero_keys_def simplify_loop_zero)

lemma simplify_examples:
  "sum_bind (PauliTensor_from_str ''III'') (\<lambda>III.
   sum_bind (PauliTensor_from_str ''XXX'') (\<lambda>XXX.
     simplify \<lparr>coeffs = dict_of [(PauliTensor_mul_scalar III \<i>, 1),
                                  (PauliTensor_mul_scalar XXX 2, 2)]\<rparr>))
   = sum_bind (PauliTensor_from_str ''III'') (\<lambda>III.
     sum_bind (PauliTensor_from_str ''XXX'') (\<lambda>XXX.
       Inr \<lparr>coeffs = dict_of [(III, \<i>), (XXX, 4)]\<rparr>))"
  "sum_bind (PauliTensor_from_str ''III'') (\<lambda>III.
   sum_bind (PauliTensor_from_str ''XXX'') (\<lambda>XXX.
     simplify \<lparr>coeffs = dict_of [(PauliTensor_mul_scalar III \<i>, 1),
                                  (PauliTensor_mul_scalar XXX 2, 2),
                                  (PauliTensor_mul_scalar XXX \<i>, 1)]\<rparr>))
   = sum_bind (PauliTensor_from_str ''III'') (\<lambda>III.
     sum_bind (PauliTensor_from_str ''XXX'') (\<lambda>XXX.
       Inr \<lparr>coeffs = dict_of [(III, \<i>), (XXX, 4 + \<i>)]\<rparr>))"
  by (simp_all add: from_str_eval dict_of_def PauliTensor_mul_scalar_def simplify_def
      factor_phase_valid overall_phase_def dephased_def py_truediv_def complex_eq_iff)

lemma hash_fields_eq: "PauliTensor_hash_fields t1 = PauliTensor_hash_fields t2 \<longleftrightarrow> t1 = t2"
  by (auto simp add: PauliTensor_hash_fields_def intro: PauliTensor.equality)

lemma PauliTensor_eq_valid:
  assumes "valid_tensor t1" "valid_tensor t2"
  shows "PauliTensor_eq t1 t2 =
           Inr (overall_phase t1 = overall_phase t2
                \<and> map dephased (tensor t1) = map dephased (tensor t2))"
  using assms by (simp add: PauliTensor_eq_def factor_phase_valid)

lemma prod_list_fourth_roots:
  "list_all valid_group fs \<Longrightarrow> prod_list (map PauliGroupElement.phase fs) \<in> {1, - 1, \<i>, - \<i>}"
proof (induction fs)
  case Nil
  then show ?case by simp
next
  case (Cons f fs)
  then have "PauliGroupElement.phase f \<in> {1, - 1, \<i>, - \<i>}"
    and "prod_list (map PauliGroupElement.phase fs) \<in> {1, - 1, \<i>, - \<i>}"
    by (simp_all add: valid_group_def)
  then have "PauliGroupElement.phase f * prod_list (map PauliGroupElement.phase fs)
      \<in> {1, - 1, \<i>, - \<i>}"
    by (rule valid_times)
  then show ?case by simp
qed

lemma overall_phase_fourth_root:
  assumes "valid_tensor t" "PauliTensor.phase t \<in> fourth_roots"
  shows "overall_phase t \<in> fourth_roots"
  unfolding overall_phase_def fourth_roots_def
  using assms prod_list_fourth_roots[of "tensor t"]
  by (intro valid_times) (simp_all add: valid_tensor_def fourth_roots_def)

lemma simple_key_fourth_root:
  assumes "overall_phase t \<in> fourth_roots"
  shows "simple_key t = \<lparr>PauliTensor.phase = 1, tensor = map dephased (tensor t)\<rparr>"
  using assms by (auto simp add: simple_key_def PauliTensor_mul_scalar_def fourth_roots_def)


section \<open>The keys of the coefficient mapping\<close>

text \<open>
  Claim C3 says that two tensors that are equal under the normalized equality are one key
  of the coefficient mapping: they hash identically, and a coefficient stored under the
  first and then under the second accumulates in one entry. \<^verbatim>\<open>PauliTensor\<close> keeps the
  hash that the dataclass generates from the raw fields. The tensors \<open>i (X)\<close> and
  \<open>1 (i X)\<close> are equal under \<^verbatim>\<open>__eq__\<close>, their raw fields differ, and they occupy two
  entries.
\<close>

theorem raw_keys_counterexample:
  "PauliTensor_eq
      \<lparr>PauliTensor.phase = \<i>, tensor = [\<lparr>PauliGroupElement.phase = 1, sigma = X\<rparr>]\<rparr>
      \<lparr>PauliTensor.phase = 1, tensor = [\<lparr>PauliGroupElement.phase = \<i>, sigma = X\<rparr>]\<rparr>
     = Inr True
   \<and> PauliTensor_hash_fields
        \<lparr>PauliTensor.phase = \<i>, tensor = [\<lparr>PauliGroupElement.phase = 1, sigma = X\<rparr>]\<rparr>
     \<noteq> PauliTensor_hash_fields
        \<lparr>PauliTensor.phase = 1, tensor = [\<lparr>PauliGroupElement.phase = \<i>, sigma = X\<rparr>]\<rparr>
   \<and> dict_add_to
        \<lparr>PauliTensor.phase = 1, tensor = [\<lparr>PauliGroupElement.phase = \<i>, sigma = X\<rparr>]\<rparr> 1
        (dict_add_to
          \<lparr>PauliTensor.phase = \<i>, tensor = [\<lparr>PauliGroupElement.phase = 1, sigma = X\<rparr>]\<rparr> 1 [])
     = [(\<lparr>PauliTensor.phase = \<i>, tensor = [\<lparr>PauliGroupElement.phase = 1, sigma = X\<rparr>]\<rparr>, 1),
        (\<lparr>PauliTensor.phase = 1, tensor = [\<lparr>PauliGroupElement.phase = \<i>, sigma = X\<rparr>]\<rparr>, 1)]"
  by (simp add: PauliTensor_eq_valid valid_tensor_def valid_group_def overall_phase_def
      dephased_def PauliTensor_hash_fields_def complex_eq_iff)

text \<open>
  Claim C3, amended. The coefficient mapping is keyed by the raw fields of a tensor
  (its phase and its tuple of factors): a coefficient stored under \<open>t1\<close> and then under
  \<open>t2\<close> accumulates in one entry when the raw fields of \<open>t1\<close> and \<open>t2\<close> agree and makes two
  entries otherwise. Two tensors with different raw fields that are equal under the
  normalized equality, the phase of the first being a fourth root of unity, are merged
  by \<^verbatim>\<open>simplify\<close>: their overall phase \<open>p\<close> is a fourth root of unity, and both are
  stored under the same normalized key of phase 1, with the coefficient
  \<open>c1 * p + c2 * p\<close>.
\<close>

theorem keys_merge_on_simplify:
  "dict_add_to t2 c2 (dict_add_to t1 c1 []) =
     (if PauliTensor_hash_fields t1 = PauliTensor_hash_fields t2 then [(t1, c1 + c2)]
      else [(t1, c1), (t2, c2)])
   \<and> (valid_tensor t1 \<and> valid_tensor t2 \<and> PauliTensor.phase t1 \<in> fourth_roots
        \<and> PauliTensor_eq t1 t2 = Inr True
        \<and> PauliTensor_hash_fields t1 \<noteq> PauliTensor_hash_fields t2 \<longrightarrow>
      overall_phase t1 \<in> fourth_roots
      \<and> overall_phase t2 = overall_phase t1
      \<and> simplify \<lparr>coeffs = dict_add_to t2 c2 (dict_add_to t1 c1 [])\<rparr> =
          Inr \<lparr>coeffs =
            [(\<lparr>PauliTensor.phase = 1, tensor = map dephased (tensor t1)\<rparr>,
              c1 * overall_phase t1 + c2 * overall_phase t1)]\<rparr>)"
proof -
  have a: "dict_add_to t2 c2 (dict_add_to t1 c1 []) =
     (if PauliTensor_hash_fields t1 = PauliTensor_hash_fields t2 then [(t1, c1 + c2)]
      else [(t1, c1), (t2, c2)])"
    by (simp add: hash_fields_eq)
  have b: "overall_phase t1 \<in> fourth_roots
      \<and> overall_phase t2 = overall_phase t1
      \<and> simplify \<lparr>coeffs = dict_add_to t2 c2 (dict_add_to t1 c1 [])\<rparr> =
          Inr \<lparr>coeffs =
            [(\<lparr>PauliTensor.phase = 1, tensor = map dephased (tensor t1)\<rparr>,
              c1 * overall_phase t1 + c2 * overall_phase t1)]\<rparr>"
    if v: "valid_tensor t1" "valid_tensor t2" and u: "PauliTensor.phase t1 \<in> fourth_roots"
      and e: "PauliTensor_eq t1 t2 = Inr True"
      and h: "PauliTensor_hash_fields t1 \<noteq> PauliTensor_hash_fields t2"
  proof -
    from e v have p: "overall_phase t2 = overall_phase t1"
      and f: "map dephased (tensor t2) = map dephased (tensor t1)"
      by (simp_all add: PauliTensor_eq_valid)
    have r1: "overall_phase t1 \<in> fourth_roots"
      using v(1) u by (rule overall_phase_fourth_root)
    then have r2: "overall_phase t2 \<in> fourth_roots" by (simp add: p)
    have n1: "overall_phase t1 \<noteq> 0" using r1 by (auto simp add: fourth_roots_def)
    have n2: "overall_phase t2 \<noteq> 0" using n1 by (simp add: p)
    have k1: "simple_key t1 = \<lparr>PauliTensor.phase = 1, tensor = map dephased (tensor t1)\<rparr>"
      using r1 by (rule simple_key_fourth_root)
    have k2: "simple_key t2 = \<lparr>PauliTensor.phase = 1, tensor = map dephased (tensor t1)\<rparr>"
      using simple_key_fourth_root[OF r2] by (simp add: f)
    from h have "t1 \<noteq> t2" by auto
    then have d: "dict_add_to t2 c2 (dict_add_to t1 c1 []) = [(t1, c1), (t2, c2)]"
      by simp
    have l: "simplify_loop [(t1, c1), (t2, c2)] [] =
        Inr [(\<lparr>PauliTensor.phase = 1, tensor = map dephased (tensor t1)\<rparr>,
              c1 * overall_phase t1 + c2 * overall_phase t1)]"
      by (simp add: simplify_step[OF v(1) n1] simplify_step[OF v(2) n2] k1 k2 p
          del: simplify_loop.simps(2))
    have "simplify \<lparr>coeffs = dict_add_to t2 c2 (dict_add_to t1 c1 [])\<rparr> =
          Inr \<lparr>coeffs =
            [(\<lparr>PauliTensor.phase = 1, tensor = map dephased (tensor t1)\<rparr>,
              c1 * overall_phase t1 + c2 * overall_phase t1)]\<rparr>"
      unfolding d simplify_def by (simp add: l del: simplify_loop.simps(2))
    with r1 p show ?thesis by blast
  qed
  show ?thesis using a b by blast
qed

theorem keys_merge_on_simplify_witness:
  "valid_tensor \<lparr>PauliTensor.phase = \<i>, tensor = [\<lparr>PauliGroupElement.phase = 1, sigma = X\<rparr>]\<rparr>
   \<and> valid_tensor \<lparr>PauliTensor.phase = 1, tensor = [\<lparr>PauliGroupElement.phase = \<i>, sigma = X\<rparr>]\<rparr>
   \<and> \<i> \<in> fourth_roots
   \<and> PauliTensor_eq
        \<lparr>PauliTensor.phase = \<i>, tensor = [\<lparr>PauliGroupElement.phase = 1, sigma = X\<rparr>]\<rparr>
        \<lparr>PauliTensor.phase = 1, tensor = [\<lparr>PauliGroupElement.phase = \<i>, sigma = X\<rparr>]\<rparr>
       = Inr True
   \<and> simplify \<lparr>coeffs =
        [(\<lparr>PauliTensor.phase = \<i>, tensor = [\<lparr>PauliGroupElement.phase = 1, sigma = X\<rparr>]\<rparr>, 2),
         (\<lparr>PauliTensor.phase = 1, tensor = [\<lparr>PauliGroupElement.phase = \<i>, sigma = X\<rparr>]\<rparr>, 3)]\<rparr>
     = Inr \<lparr>coeffs =
        [(\<lparr>PauliTensor.phase = 1, tensor = [\<lparr>PauliGroupElement.phase = 1, sigma = X\<rparr>]\<rparr>,
          2 * \<i> + 3 * \<i>)]\<rparr>"
proof -
  let ?t1 = "\<lparr>PauliTensor.phase = \<i>, tensor = [\<lparr>PauliGroupElement.phase = 1, sigma = X\<rparr>]\<rparr>"
  let ?t2 = "\<lparr>PauliTensor.phase = 1, tensor = [\<lparr>PauliGroupElement.phase = \<i>, sigma = X\<rparr>]\<rparr>"
  have v: "valid_tensor ?t1" "valid_tensor ?t2"
    by (simp_all add: valid_tensor_def valid_group_def)
  have u: "PauliTensor.phase ?t1 \<in> fourth_roots" and u': "\<i> \<in> fourth_roots"
    by (simp_all add: fourth_roots_def)
  have o: "overall_phase ?t1 = \<i>" by (simp add: overall_phase_def)
  have e: "PauliTensor_eq ?t1 ?t2 = Inr True"
    using v by (simp add: PauliTensor_eq_valid overall_phase_def dephased_def)
  have h: "PauliTensor_hash_fields ?t1 \<noteq> PauliTensor_hash_fields ?t2"
    by (simp add: PauliTensor_hash_fields_def complex_eq_iff)
  have d: "dict_add_to ?t2 3 (dict_add_to ?t1 2 []) = [(?t1, 2), (?t2, 3)]"
    by (simp add: complex_eq_iff)
  have k: "map dephased (tensor ?t1) = [\<lparr>PauliGroupElement.phase = 1, sigma = X\<rparr>]"
    by (simp add: dephased_def)
  from keys_merge_on_simplify[of ?t2 3 ?t1 2] v u e h
  have "simplify \<lparr>coeffs = dict_add_to ?t2 3 (dict_add_to ?t1 2 [])\<rparr> =
          Inr \<lparr>coeffs =
            [(\<lparr>PauliTensor.phase = 1, tensor = map dephased (tensor ?t1)\<rparr>,
              2 * overall_phase ?t1 + 3 * overall_phase ?t1)]\<rparr>"
    by blast
  then have "simplify \<lparr>coeffs = [(?t1, 2), (?t2, 3)]\<rparr> =
      Inr \<lparr>coeffs = [(\<lparr>PauliTensor.phase = 1,
           tensor = [\<lparr>PauliGroupElement.phase = 1, sigma = X\<rparr>]\<rparr>, 2 * \<i> + 3 * \<i>)]\<rparr>"
    unfolding d k o .
  with v u' e show ?thesis by blast
qed


section \<open>The result of simplify\<close>

text \<open>
  Claim C8. For every algebra element with coefficient pairs \<open>(t, c)\<close>, \<^verbatim>\<open>simplify\<close>
  returns the element whose mapping is built by normalizing each \<open>t\<close> to
  \<open>t' = t.factor_phase()\<close>, taking \<open>p = t'.phase\<close> and the key \<open>t'\<close> with its phase forced to
  1, and accumulating \<open>c * p\<close> under that key. The two examples of the claim evaluate as
  it says. For a key whose overall phase is 0, as \<open>0 * XXX\<close>, the source computes the key
  as \<^verbatim>\<open>factored_tensor * (1 / factored_phase)\<close> and raises \<^verbatim>\<open>ZeroDivisionError\<close> instead
  of returning the element with the coefficient 0 under \<open>XXX\<close>.
\<close>

theorem simplify_zero_phase_key:
  "sum_bind (PauliTensor_from_str ''XXX'') (\<lambda>XXX.
     simplify \<lparr>coeffs = dict_of [(PauliTensor_mul_scalar XXX 0, 1)]\<rparr>)
     = Inl ZeroDivisionError
   \<and> sum_bind (PauliTensor_from_str ''III'') (\<lambda>III.
     sum_bind (PauliTensor_from_str ''XXX'') (\<lambda>XXX.
       simplify \<lparr>coeffs = dict_of [(PauliTensor_mul_scalar III \<i>, 1),
                                    (PauliTensor_mul_scalar XXX 2, 2)]\<rparr>))
     = sum_bind (PauliTensor_from_str ''III'') (\<lambda>III.
       sum_bind (PauliTensor_from_str ''XXX'') (\<lambda>XXX.
         Inr \<lparr>coeffs = dict_of [(III, \<i>), (XXX, 4)]\<rparr>))
   \<and> sum_bind (PauliTensor_from_str ''III'') (\<lambda>III.
     sum_bind (PauliTensor_from_str ''XXX'') (\<lambda>XXX.
       simplify \<lparr>coeffs = dict_of [(PauliTensor_mul_scalar III \<i>, 1),
                                    (PauliTensor_mul_scalar XXX 2, 2),
                                    (PauliTensor_mul_scalar XXX \<i>, 1)]\<rparr>))
     = sum_bind (PauliTensor_from_str ''III'') (\<lambda>III.
       sum_bind (PauliTensor_from_str ''XXX'') (\<lambda>XXX.
         Inr \<lparr>coeffs = dict_of [(III, \<i>), (XXX, 4 + \<i>)]\<rparr>))"
proof -
  have "sum_bind (PauliTensor_from_str ''XXX'') (\<lambda>XXX.
     simplify \<lparr>coeffs = dict_of [(PauliTensor_mul_scalar XXX 0, 1)]\<rparr>)
     = Inl ZeroDivisionError"
    by (simp add: from_str_eval PauliTensor_mul_scalar_def simplify_def factor_phase_valid
        overall_phase_def py_truediv_def)
  then show ?thesis using simplify_examples by blast
qed


section \<open>A bare tensor as the left operand of an algebra element\<close>

text \<open>
  Claim C1. Multiplying an algebra element \<open>A\<close> with a bare tensor \<open>t\<close> is multiplying with
  the singleton element \<open>{t: 1}\<close> in the same operand position: \<open>A * t == A * {t: 1}\<close> and
  \<open>t * A == {t: 1} * A\<close>. The first holds. For \<open>t * A\<close> the tensor's \<^verbatim>\<open>__mul__\<close> returns
  \<^verbatim>\<open>NotImplemented\<close> and \<^verbatim>\<open>__rmul__\<close> of the algebra element runs \<^verbatim>\<open>self * other\<close>, which
  puts the tensor on the right: with \<open>t = X\<close> and \<open>A = {Y: 1}\<close> the source returns
  \<open>{-i Z: 1}\<close>, the value of \<open>A * {t: 1}\<close>, while \<open>{t: 1} * A\<close> is \<open>{i Z: 1}\<close>, and the two
  are not equal as algebra elements.
\<close>

theorem tensor_times_algebra_swapped:
  "py_mul
      (Tensor \<lparr>PauliTensor.phase = 1, tensor = [\<lparr>PauliGroupElement.phase = 1, sigma = X\<rparr>]\<rparr>)
      (Algebra \<lparr>coeffs = dict_of
         [(\<lparr>PauliTensor.phase = 1, tensor = [\<lparr>PauliGroupElement.phase = 1, sigma = Y\<rparr>]\<rparr>, 1)]\<rparr>)
     = Inr (Algebra \<lparr>coeffs =
         [(\<lparr>PauliTensor.phase = - \<i>, tensor = [\<lparr>PauliGroupElement.phase = 1, sigma = Z\<rparr>]\<rparr>, 1)]\<rparr>)
   \<and> py_mul
      (Algebra \<lparr>coeffs = dict_of
         [(\<lparr>PauliTensor.phase = 1, tensor = [\<lparr>PauliGroupElement.phase = 1, sigma = X\<rparr>]\<rparr>, 1)]\<rparr>)
      (Algebra \<lparr>coeffs = dict_of
         [(\<lparr>PauliTensor.phase = 1, tensor = [\<lparr>PauliGroupElement.phase = 1, sigma = Y\<rparr>]\<rparr>, 1)]\<rparr>)
     = Inr (Algebra \<lparr>coeffs =
         [(\<lparr>PauliTensor.phase = \<i>, tensor = [\<lparr>PauliGroupElement.phase = 1, sigma = Z\<rparr>]\<rparr>, 1)]\<rparr>)
   \<and> PauliAlgebraElement_eq
      \<lparr>coeffs =
         [(\<lparr>PauliTensor.phase = - \<i>, tensor = [\<lparr>PauliGroupElement.phase = 1, sigma = Z\<rparr>]\<rparr>, 1)]\<rparr>
      \<lparr>coeffs =
         [(\<lparr>PauliTensor.phase = \<i>, tensor = [\<lparr>PauliGroupElement.phase = 1, sigma = Z\<rparr>]\<rparr>, 1)]\<rparr>
     = Inr False
   \<and> py_mul
      (Algebra \<lparr>coeffs = dict_of
         [(\<lparr>PauliTensor.phase = 1, tensor = [\<lparr>PauliGroupElement.phase = 1, sigma = Y\<rparr>]\<rparr>, 1)]\<rparr>)
      (Tensor \<lparr>PauliTensor.phase = 1, tensor = [\<lparr>PauliGroupElement.phase = 1, sigma = X\<rparr>]\<rparr>)
     = Inr (Algebra \<lparr>coeffs =
         [(\<lparr>PauliTensor.phase = - \<i>, tensor = [\<lparr>PauliGroupElement.phase = 1, sigma = Z\<rparr>]\<rparr>, 1)]\<rparr>)"
  by (simp add: py_mul_def PauliAlgebraElement_mul_tensor_def PauliAlgebraElement_mul_algebra_def
      PauliTensor_mul_tensor_valid dim_def overall_phase_def table_phases_def table_labels_def
      table_values PauliAlgebraElement_eq_def simplify_def factor_phase_valid py_truediv_def
      PauliTensor_mul_scalar_def dephased_def dict_eq_def complex_eq_iff)

section \<open>Facts about the errors of the operations\<close>

lemma PauliTensor_mul_tensor_error:
  assumes "valid_tensor a" "valid_tensor b" "PauliTensor_mul_tensor a b = Inl e"
  shows "e = DimensionMismatchError"
proof (cases "dim a = dim b")
  case True
  then show ?thesis using PauliTensor_mul_tensor_valid[OF assms(1,2)] assms(3) by simp
next
  case False
  then show ?thesis using assms(3) by (simp add: PauliTensor_mul_tensor_mismatch)
qed

lemma PauliAlgebraElement_mul_algebra_error:
  assumes "valid_algebra a" "valid_algebra b" "PauliAlgebraElement_mul_algebra a b = Inl e"
  shows "e = DimensionMismatchError"
proof (cases "dims_agree a b")
  case True
  then show ?thesis
    using PauliAlgebraElement_mul_algebra_iff(2)[OF assms(1,2)] assms(3) by auto
next
  case False
  then show ?thesis
    using PauliAlgebraElement_mul_algebra_iff(1)[OF assms(1,2)] assms(3) by simp
qed

lemma map_sum_Inl: "map_sum id f x = Inl e \<longleftrightarrow> x = Inl e"
  by (cases x) simp_all

lemma PauliGroupElement_mul_scalar_error:
  "PauliGroupElement_mul_scalar g z = Inl e \<Longrightarrow> e = InvalidPhaseError"
  by (simp add: PauliGroupElement_mul_scalar_def PauliGroupElement_init_def split: if_splits)

lemma py_mul_error:
  assumes "valid_pyval a" "valid_pyval b" "py_mul a b = Inl e"
  shows "e \<in> {InvalidPhaseError, DimensionMismatchError, UnsupportedOperandError}"
proof (cases a)
  case (Scalar z)
  then show ?thesis
    using assms by (cases b) (auto simp add: py_mul_def map_sum_Inl
        dest: PauliGroupElement_mul_scalar_error)
next
  case (Group g)
  then show ?thesis
    using assms by (cases b) (auto simp add: py_mul_def map_sum_Inl
        PauliGroupElement_mul_group_valid dest: PauliGroupElement_mul_scalar_error)
next
  case (Tensor t)
  then show ?thesis
    using assms by (cases b) (auto simp add: py_mul_def map_sum_Inl
        PauliAlgebraElement_mul_tensor_def
        dest: PauliTensor_mul_tensor_error PauliAlgebraElement_mul_algebra_error[rotated 2]
        intro: valid_single)
next
  case (Algebra x)
  then show ?thesis
    using assms by (cases b) (auto simp add: py_mul_def map_sum_Inl
        PauliAlgebraElement_mul_tensor_def
        dest: PauliAlgebraElement_mul_algebra_error[rotated 2] intro: valid_single)
next
  case Other
  then show ?thesis
    using assms by (cases b) (auto simp add: py_mul_def)
qed

lemma py_add_error: "py_add a b = Inl e \<Longrightarrow> e = UnsupportedOperandError"
  by (cases "(a, b)" rule: py_add.cases) simp_all

lemma py_neg_error:
  assumes "valid_pyval a" "py_neg a = Inl e"
  shows "e = UnsupportedOperandError"
proof (cases a)
  case (Group g)
  with assms(1) have "PauliGroupElement.phase g * (- 1) \<in> {1, - 1, \<i>, - \<i>}"
    by (auto simp add: valid_group_def)
  then have "\<exists>r. PauliGroupElement_neg g = Inr r"
    by (simp add: PauliGroupElement_neg_def PauliGroupElement_mul_scalar_def
        PauliGroupElement_init_def del: insert_iff)
  then show ?thesis using assms(2) Group by auto
qed (use assms in auto)

lemma getitem_init:
  "sum_bind (SIGMA_getitem c) (PauliGroupElement_init 1) =
     (if c \<in> SIGMA_names
      then Inr \<lparr>PauliGroupElement.phase = 1,
                sigma = (if c = CHR ''I'' then I else if c = CHR ''X'' then X
                         else if c = CHR ''Y'' then Y else Z)\<rparr>
      else Inl KeyError)"
  by (simp add: SIGMA_getitem_def SIGMA_names_def init_unit)

lemma traverse_error:
  "(\<And>x e'. f x = Inl e' \<Longrightarrow> e' = e0) \<Longrightarrow> traverse f xs = Inl e \<Longrightarrow> e = e0"
proof (induction xs arbitrary: e)
  case Nil
  then show ?case by simp
next
  case (Cons x xs)
  show ?case
  proof (cases "f x")
    case (Inl a)
    then show ?thesis using Cons.prems by simp
  next
    case (Inr y)
    then show ?thesis
      using Cons by (cases "traverse f xs") auto
  qed
qed

lemma traverse_Inr_iff:
  "(\<exists>ys. traverse f xs = Inr ys) \<longleftrightarrow> (\<forall>x \<in> set xs. \<exists>y. f x = Inr y)"
proof (induction xs)
  case Nil
  then show ?case by simp
next
  case (Cons x xs)
  show ?case
  proof (cases "f x")
    case (Inl a)
    then show ?thesis by auto
  next
    case (Inr y)
    then show ?thesis
      using Cons by (cases "traverse f xs") auto
  qed
qed

lemma PauliTensor_from_str_error: "PauliTensor_from_str str = Inl e \<Longrightarrow> e = KeyError"
proof -
  assume a: "PauliTensor_from_str str = Inl e"
  then have "traverse (\<lambda>c. sum_bind (SIGMA_getitem c) (PauliGroupElement_init 1)) str = Inl e"
    by (cases "traverse (\<lambda>c. sum_bind (SIGMA_getitem c) (PauliGroupElement_init 1)) str")
       (simp_all add: PauliTensor_from_str_def)
  then show ?thesis
    by (rule traverse_error[rotated]) (simp add: getitem_init split: if_splits)
qed

lemma PauliTensor_from_str_returns:
  "(\<exists>t. PauliTensor_from_str str = Inr t) \<longleftrightarrow> set str \<subseteq> SIGMA_names"
proof -
  have "(\<exists>t. PauliTensor_from_str str = Inr t) \<longleftrightarrow>
      (\<exists>ys. traverse (\<lambda>c. sum_bind (SIGMA_getitem c) (PauliGroupElement_init 1)) str = Inr ys)"
    by (auto simp add: PauliTensor_from_str_def sum_bind_eq_Inr)
  also have "\<dots> \<longleftrightarrow> set str \<subseteq> SIGMA_names"
    unfolding traverse_Inr_iff by (auto simp add: getitem_init)
  finally show ?thesis .
qed

lemma PauliAlgebraElement_eq_returns:
  assumes "valid_algebra a" "valid_algebra b" "nonzero_keys a" "nonzero_keys b"
  shows "\<exists>r. PauliAlgebraElement_eq a b = Inr r"
  using assms by (simp add: PauliAlgebraElement_eq_def simplify_nonzero)


section \<open>The kinds of failure\<close>

text \<open>
  Claim C4 says that every public operation either returns a value or fails with one of
  exactly three kinds of error (invalid phase, dimension mismatch, unsupported operand),
  in particular \<^verbatim>\<open>simplify\<close> on every algebra element, also one with a key of overall
  phase 0, and \<^verbatim>\<open>from_str\<close> on every string. \<^verbatim>\<open>from_str\<close> looks each character up in
  the enum and fails with \<^verbatim>\<open>KeyError\<close> on the string \<open>A\<close>; \<^verbatim>\<open>simplify\<close> fails with
  \<^verbatim>\<open>ZeroDivisionError\<close> on the element \<open>{0 (I): 1}\<close>.
\<close>

theorem error_kinds_counterexample:
  "PauliTensor_from_str ''A'' = Inl KeyError
   \<and> simplify \<lparr>coeffs = dict_of
        [(\<lparr>PauliTensor.phase = 0, tensor = [\<lparr>PauliGroupElement.phase = 1, sigma = I\<rparr>]\<rparr>, 1)]\<rparr>
     = Inl ZeroDivisionError
   \<and> KeyError \<notin> {InvalidPhaseError, DimensionMismatchError, UnsupportedOperandError}
   \<and> ZeroDivisionError \<notin> {InvalidPhaseError, DimensionMismatchError, UnsupportedOperandError}"
  by (simp add: PauliTensor_from_str_def SIGMA_getitem_def simplify_def factor_phase_valid
      overall_phase_def py_truediv_def)

text \<open>
  Claim C4, amended. On operands that satisfy the invariant of the group element's
  constructor, every product \<open>a * b\<close> either returns a value or fails with one of the
  three kinds; a sum fails only with the unsupported-operand error, and so does a
  negation; the constructor of a group element fails only with the invalid-phase error;
  \<^verbatim>\<open>factor_phase\<close> and the equality of tensors return. \<^verbatim>\<open>from_str\<close> returns exactly on
  the strings over \<open>I\<close>, \<open>X\<close>, \<open>Y\<close>, \<open>Z\<close>, and on any other string it fails with the error of
  the failed lookup (\<^verbatim>\<open>KeyError\<close>), a fourth kind. \<^verbatim>\<open>simplify\<close> and the equality of
  algebra elements return on the elements whose keys all have an overall phase other
  than 0.
\<close>

theorem operations_error_kinds:
  "(valid_pyval a \<and> valid_pyval b \<and> py_mul a b = Inl e \<longrightarrow>
      e \<in> {InvalidPhaseError, DimensionMismatchError, UnsupportedOperandError})
   \<and> (py_add a b = Inl e \<longrightarrow> e = UnsupportedOperandError)
   \<and> (valid_pyval a \<and> py_neg a = Inl e \<longrightarrow> e = UnsupportedOperandError)
   \<and> (PauliGroupElement_init p s = Inl e \<longrightarrow> e = InvalidPhaseError)
   \<and> (valid_tensor t \<longrightarrow> (\<exists>r. factor_phase t = Inr r))
   \<and> (valid_tensor t \<and> valid_tensor u \<longrightarrow> (\<exists>r. PauliTensor_eq t u = Inr r))
   \<and> (PauliTensor_from_str str = Inl e \<longrightarrow> e = KeyError)
   \<and> ((\<exists>r. PauliTensor_from_str str = Inr r) \<longleftrightarrow> set str \<subseteq> SIGMA_names)
   \<and> ((\<exists>r. PauliAlgebraElement_from_str str = Inr r) \<longleftrightarrow> set str \<subseteq> SIGMA_names)
   \<and> (valid_algebra A \<and> nonzero_keys A \<longrightarrow> (\<exists>r. simplify A = Inr r))
   \<and> (valid_algebra A \<and> valid_algebra B \<and> nonzero_keys A \<and> nonzero_keys B \<longrightarrow>
        (\<exists>r. PauliAlgebraElement_eq A B = Inr r))"
proof -
  have 1: "valid_pyval a \<and> valid_pyval b \<and> py_mul a b = Inl e \<longrightarrow>
      e \<in> {InvalidPhaseError, DimensionMismatchError, UnsupportedOperandError}"
    using py_mul_error[of a b e] by blast
  have 2: "py_add a b = Inl e \<longrightarrow> e = UnsupportedOperandError"
    using py_add_error[of a b e] by blast
  have 3: "valid_pyval a \<and> py_neg a = Inl e \<longrightarrow> e = UnsupportedOperandError"
    using py_neg_error[of a e] by blast
  have 4: "PauliGroupElement_init p s = Inl e \<longrightarrow> e = InvalidPhaseError"
    by (simp add: PauliGroupElement_init_def)
  have 5: "valid_tensor t \<longrightarrow> (\<exists>r. factor_phase t = Inr r)"
    by (simp add: factor_phase_valid)
  have 6: "valid_tensor t \<and> valid_tensor u \<longrightarrow> (\<exists>r. PauliTensor_eq t u = Inr r)"
    by (simp add: PauliTensor_eq_valid)
  have 7: "PauliTensor_from_str str = Inl e \<longrightarrow> e = KeyError"
    using PauliTensor_from_str_error[of str e] by blast
  have 8: "(\<exists>r. PauliTensor_from_str str = Inr r) \<longleftrightarrow> set str \<subseteq> SIGMA_names"
    by (rule PauliTensor_from_str_returns)
  have 9: "(\<exists>r. PauliAlgebraElement_from_str str = Inr r) \<longleftrightarrow> set str \<subseteq> SIGMA_names"
    unfolding PauliTensor_from_str_returns[symmetric]
    by (auto simp add: PauliAlgebraElement_from_str_def sum_bind_eq_Inr)
  have 10: "valid_algebra A \<and> nonzero_keys A \<longrightarrow> (\<exists>r. simplify A = Inr r)"
    by (simp add: simplify_nonzero)
  have 11: "valid_algebra A \<and> valid_algebra B \<and> nonzero_keys A \<and> nonzero_keys B \<longrightarrow>
        (\<exists>r. PauliAlgebraElement_eq A B = Inr r)"
    using PauliAlgebraElement_eq_returns[of A B] by blast
  show ?thesis using 1 2 3 4 5 6 7 8 9 10 11 by blast
qed

theorem operations_error_kinds_witness:
  "valid_pyval (Group \<lparr>PauliGroupElement.phase = 1, sigma = X\<rparr>)
   \<and> valid_pyval (Scalar 2)
   \<and> py_mul (Group \<lparr>PauliGroupElement.phase = 1, sigma = X\<rparr>) (Scalar 2) = Inl InvalidPhaseError
   \<and> InvalidPhaseError \<in> {InvalidPhaseError, DimensionMismatchError, UnsupportedOperandError}
   \<and> PauliTensor_from_str ''XA'' = Inl KeyError
   \<and> valid_algebra \<lparr>coeffs =
        [(\<lparr>PauliTensor.phase = 2, tensor = [\<lparr>PauliGroupElement.phase = \<i>, sigma = X\<rparr>]\<rparr>, 1)]\<rparr>
   \<and> nonzero_keys \<lparr>coeffs =
        [(\<lparr>PauliTensor.phase = 2, tensor = [\<lparr>PauliGroupElement.phase = \<i>, sigma = X\<rparr>]\<rparr>, 1)]\<rparr>
   \<and> simplify \<lparr>coeffs =
        [(\<lparr>PauliTensor.phase = 2, tensor = [\<lparr>PauliGroupElement.phase = \<i>, sigma = X\<rparr>]\<rparr>, 1)]\<rparr>
        \<noteq> Inl ZeroDivisionError"
proof -
  let ?g = "Group \<lparr>PauliGroupElement.phase = 1, sigma = X\<rparr>"
  let ?A = "\<lparr>coeffs =
        [(\<lparr>PauliTensor.phase = 2, tensor = [\<lparr>PauliGroupElement.phase = \<i>, sigma = X\<rparr>]\<rparr>, 1)]\<rparr>"
  have v: "valid_pyval ?g" "valid_pyval (Scalar 2)" by (simp_all add: valid_group_def)
  have m: "py_mul ?g (Scalar 2) = Inl InvalidPhaseError"
    by (simp add: py_mul_def PauliGroupElement_mul_scalar_def PauliGroupElement_init_def
        complex_eq_iff)
  have f: "\<not> set ''XA'' \<subseteq> SIGMA_names" by (simp add: SIGMA_names_def)
  have vA: "valid_algebra ?A" "nonzero_keys ?A"
    by (simp_all add: valid_algebra_def valid_tensor_def valid_group_def nonzero_keys_def
        overall_phase_def)
  note t = operations_error_kinds[of ?g "Scalar 2" InvalidPhaseError 1 X _ _ "''XA''" ?A ?A]
  from t v m
  have 1: "InvalidPhaseError \<in> {InvalidPhaseError, DimensionMismatchError, UnsupportedOperandError}"
    by blast
  from t f have "\<not> (\<exists>r. PauliTensor_from_str ''XA'' = Inr r)" by blast
  then obtain e where e: "PauliTensor_from_str ''XA'' = Inl e"
    by (cases "PauliTensor_from_str ''XA''") auto
  from operations_error_kinds[of ?g "Scalar 2" e 1 X _ _ "''XA''" ?A ?A] e
  have 2: "PauliTensor_from_str ''XA'' = Inl KeyError" by blast
  from t vA have "\<exists>r. simplify ?A = Inr r" by blast
  then have 3: "simplify ?A \<noteq> Inl ZeroDivisionError" by auto
  show ?thesis using v m 1 2 3 vA by blast
qed

end
